theory Spec2Isabelle
  imports Complex_Main
begin

section \<open>Decoded JSON values and the Python operations applied to them\<close>

text \<open>
  \<^verbatim>\<open>resp.json()\<close> returns a tree of Python values.  A Python \<^verbatim>\<open>dict\<close> keeps its
  items in insertion order, and \<^verbatim>\<open>six.iteritems\<close> walks them in that order, so an object
  is an association list (its keys are distinct, as the keys of a \<^verbatim>\<open>dict\<close> are).
  \<open>JNull\<close> is Python's \<^verbatim>\<open>None\<close>: the decoder maps \<^verbatim>\<open>null\<close> to it, and
  \<^verbatim>\<open>d.get(k)\<close> returns it for a key that is absent.

  A string is a list of code points below 256, one \<open>char\<close> each.  JSON numbers are the
  integers; a number written with a fraction or an exponent decodes to a Python float and
  is not represented here.
\<close>

datatype json =
    JNull
  | JBool bool
  | JInt int
  | JStr string
  | JArr "json list"
  | JObj "(string \<times> json) list"

text \<open>\<^verbatim>\<open>d.get(k)\<close>: only a \<^verbatim>\<open>dict\<close> has the method (\<open>None\<close> is the AttributeError).\<close>

fun py_get :: "json \<Rightarrow> string \<Rightarrow> json option" where
  "py_get (JObj kvs) k = Some (case map_of kvs k of None \<Rightarrow> JNull | Some v \<Rightarrow> v)"
| "py_get _ k = None"

text \<open>
  \<^verbatim>\<open>v[k]\<close> with a string \<open>k\<close>: a \<^verbatim>\<open>dict\<close> without the key raises KeyError, every
  other value raises TypeError.
\<close>

fun py_getitem :: "json \<Rightarrow> string \<Rightarrow> json option" where
  "py_getitem (JObj kvs) k = map_of kvs k"
| "py_getitem _ k = None"

text \<open>
  \<^verbatim>\<open>v[i]\<close> with a literal index \<open>i \<ge> 0\<close>: a list gives its element, a string its
  character (IndexError out of range); a \<^verbatim>\<open>dict\<close> decoded from JSON has string keys
  only (KeyError); the other values cannot be subscripted (TypeError).
\<close>

fun py_index :: "json \<Rightarrow> nat \<Rightarrow> json option" where
  "py_index (JArr xs) i = (if i < length xs then Some (xs ! i) else None)"
| "py_index (JStr s) i = (if i < length s then Some (JStr [s ! i]) else None)"
| "py_index _ i = None"

text \<open>\<^verbatim>\<open>t in s\<close> on strings: \<open>t\<close> occurs in \<open>s\<close> as a contiguous block.\<close>

fun starts_with :: "string \<Rightarrow> string \<Rightarrow> bool" where
  "starts_with [] s = True"
| "starts_with (c # t) [] = False"
| "starts_with (c # t) (d # s) = (c = d \<and> starts_with t s)"

fun substring :: "string \<Rightarrow> string \<Rightarrow> bool" where
  "substring t [] = (t = [])"
| "substring t (d # s) = (starts_with t (d # s) \<or> substring t s)"

text \<open>
  \<^verbatim>\<open>k in v\<close> with a string \<open>k\<close>: a key of a \<^verbatim>\<open>dict\<close>, an element of a list, a
  substring of a string; TypeError (\<open>None\<close>) on the values that are not containers.
\<close>

fun py_in :: "string \<Rightarrow> json \<Rightarrow> bool option" where
  "py_in k (JObj kvs) = Some (k \<in> fst ` set kvs)"
| "py_in k (JArr xs) = Some (JStr k \<in> set xs)"
| "py_in k (JStr s) = Some (substring k s)"
| "py_in k _ = None"

text \<open>
  \<^verbatim>\<open>for item in v\<close>: a list yields its elements, a \<^verbatim>\<open>dict\<close> its keys, a string its
  characters; TypeError (\<open>None\<close>) otherwise.
\<close>

fun py_iter :: "json \<Rightarrow> json list option" where
  "py_iter (JArr xs) = Some xs"
| "py_iter (JObj kvs) = Some (map (\<lambda>kv. JStr (fst kv)) kvs)"
| "py_iter (JStr s) = Some (map (\<lambda>c. JStr [c]) s)"
| "py_iter _ = None"

fun is_dict :: "json \<Rightarrow> bool" where
  "is_dict (JObj kvs) = True"
| "is_dict _ = False"

subsection \<open>\<^verbatim>\<open>str.isdigit\<close> and \<^verbatim>\<open>int\<close>\<close>

definition ascii_digit :: "char \<Rightarrow> bool" where
  "ascii_digit c = (48 \<le> (of_char c :: nat) \<and> (of_char c :: nat) \<le> 57)"

text \<open>
  Below 256 the characters that \<^verbatim>\<open>str.isdigit\<close> accepts are the ten ASCII digits and
  the superscripts two, three and one (U+00B2, U+00B3, U+00B9).  The empty string is not
  a digit string.
\<close>

definition isdigit :: "string \<Rightarrow> bool" where
  "isdigit s = (s \<noteq> [] \<and>
     list_all (\<lambda>c. ascii_digit c \<or> (of_char c :: nat) \<in> {178, 179, 185}) s)"

text \<open>
  \<^verbatim>\<open>int(s)\<close> on a string that passed \<^verbatim>\<open>isdigit\<close>: the superscripts are not decimal
  digits and raise ValueError (\<open>None\<close>).
\<close>

definition py_int :: "string \<Rightarrow> int option" where
  "py_int s = (if s \<noteq> [] \<and> list_all ascii_digit s
     then Some (foldl (\<lambda>a c. 10 * a + (int (of_char c) - 48)) 0 s) else None)"

subsection \<open>\<^verbatim>\<open>str\<close> and \<^verbatim>\<open>repr\<close>\<close>

definition digit_char :: "nat \<Rightarrow> char" where
  "digit_char d = char_of (48 + d)"

text \<open>The decimal digits of an integer that is not negative.\<close>

function str_digits :: "int \<Rightarrow> string" where
  "str_digits n = (if n < 10 then [digit_char (nat n)]
     else str_digits (n div 10) @ [digit_char (nat (n mod 10))])"
  by pat_completeness auto
termination
  by (relation "measure nat") auto

declare str_digits.simps [simp del]

definition str_int :: "int \<Rightarrow> string" where
  "str_int i = (if i < 0 then CHR ''-'' # str_digits (- i) else str_digits i)"

definition hex_char :: "nat \<Rightarrow> char" where
  "hex_char d = (if d < 10 then char_of (48 + d) else char_of (87 + d))"

text \<open>
  \<^verbatim>\<open>repr\<close> of a string: single quotes, unless the string holds a single quote and no
  double quote; the quote and the backslash are escaped, tab, newline and carriage return
  have their letters, and a code point that is not printable is written \<^verbatim>\<open>\xNN\<close>.
\<close>

definition printable :: "char \<Rightarrow> bool" where
  "printable c = (let n = (of_char c :: nat) in
     (32 \<le> n \<and> n < 127) \<or> (161 \<le> n \<and> n \<noteq> 173))"

definition repr_char :: "char \<Rightarrow> char \<Rightarrow> string" where
  "repr_char q c =
     (if c = q \<or> c = CHR 0x5C then [CHR 0x5C, c]
      else if c = CHR 0x09 then [CHR 0x5C, CHR ''t'']
      else if c = CHR 0x0A then [CHR 0x5C, CHR ''n'']
      else if c = CHR 0x0D then [CHR 0x5C, CHR ''r'']
      else if printable c then [c]
      else [CHR 0x5C, CHR ''x'', hex_char (of_char c div 16), hex_char (of_char c mod 16)])"

definition repr_str :: "string \<Rightarrow> string" where
  "repr_str s =
     (let q = (if CHR 0x27 \<in> set s \<and> CHR 0x22 \<notin> set s then CHR 0x22 else CHR 0x27)
      in q # concat (map (repr_char q) s) @ [q])"

fun py_repr :: "json \<Rightarrow> string"
  and repr_items :: "json list \<Rightarrow> string"
  and repr_pairs :: "(string \<times> json) list \<Rightarrow> string"
where
  "py_repr JNull = ''None''"
| "py_repr (JBool b) = (if b then ''True'' else ''False'')"
| "py_repr (JInt i) = str_int i"
| "py_repr (JStr s) = repr_str s"
| "py_repr (JArr xs) = ''['' @ repr_items xs @ '']''"
| "py_repr (JObj kvs) = ''{'' @ repr_pairs kvs @ ''}''"
| "repr_items [] = []"
| "repr_items [x] = py_repr x"
| "repr_items (x # y # ys) = py_repr x @ '', '' @ repr_items (y # ys)"
| "repr_pairs [] = []"
| "repr_pairs [(k, v)] = repr_str k @ '': '' @ py_repr v"
| "repr_pairs ((k, v) # p # ps) = repr_str k @ '': '' @ py_repr v @ '', '' @ repr_pairs (p # ps)"

text \<open>\<^verbatim>\<open>str(v)\<close>, which is also what \<^verbatim>\<open>"{}".format(v)\<close> inserts.\<close>

fun py_str :: "json \<Rightarrow> string" where
  "py_str (JStr s) = s"
| "py_str v = py_repr v"

subsection \<open>\<^verbatim>\<open>datetime.date\<close>\<close>

record date =
  year :: int
  month :: int
  day :: int

text \<open>
  The civil date of a day number counted from 1970-01-01 in the proleptic Gregorian
  calendar, computed on 400-year eras that start on 1 March.
\<close>

definition civil_from_days :: "int \<Rightarrow> date" where
  "civil_from_days z0 =
     (let z = z0 + 719468;
          era = z div 146097;
          doe = z - era * 146097;
          yoe = (doe - doe div 1460 + doe div 36524 - doe div 146096) div 365;
          doy = doe - (365 * yoe + yoe div 4 - yoe div 100);
          mp = (5 * doy + 2) div 153;
          d = doy - (153 * mp + 2) div 5 + 1;
          m = (if mp < 10 then mp + 3 else mp - 9);
          y = yoe + era * 400 + (if m \<le> 2 then 1 else 0)
      in \<lparr>year = y, month = m, day = d\<rparr>)"

text \<open>
  \<^verbatim>\<open>datetime.date.fromtimestamp(t)\<close> is the local date at \<open>t\<close> seconds after the
  epoch.  The time zone is the environment's: \<open>utcoff t\<close> is the offset of local time
  from UTC, in seconds, in force at \<open>t\<close>.  A date outside the years 1 to 9999 raises
  (\<open>None\<close>).
\<close>

definition fromtimestamp :: "(int \<Rightarrow> int) \<Rightarrow> int \<Rightarrow> date option" where
  "fromtimestamp utcoff t =
     (let d = civil_from_days ((t + utcoff t) div 86400)
      in if 1 \<le> year d \<and> year d \<le> 9999 then Some d else None)"

definition zero_pad :: "nat \<Rightarrow> string \<Rightarrow> string" where
  "zero_pad w s = replicate (w - length s) CHR ''0'' @ s"

definition isoformat :: "date \<Rightarrow> string" where
  "isoformat d = zero_pad 4 (str_int (year d)) @ ''-'' @ zero_pad 2 (str_int (month d))
     @ ''-'' @ zero_pad 2 (str_int (day d))"

section \<open>The program's surroundings\<close>

text \<open>
  \<open>'w\<close> is the world outside the process: the remote service, the clock, the stop
  event and whoever sets it.  The program touches it only through the operations below.
  \<^item> \<open>post\<close> is the transport, \<^verbatim>\<open>self.post(url, json=drpc_args)\<close>; it either raises
    or returns a response with its \<^verbatim>\<open>status_code\<close> and the value of \<^verbatim>\<open>resp.json()\<close>
    (\<open>None\<close> when the body is not JSON and decoding raises);
  \<^item> \<open>utcoff\<close> is the local time zone (see \<open>fromtimestamp\<close>);
  \<^item> \<open>clock\<close> is \<^verbatim>\<open>time.time()\<close>, in seconds;
  \<^item> \<open>wait\<close> is \<^verbatim>\<open>stop_event.wait(timeout)\<close> and \<open>is_set\<close> is \<^verbatim>\<open>stop_event.is_set()\<close>;
  \<^item> \<open>io_ok n\<close> tells whether the call number \<open>n\<close> made on the output object
    (counted from the first one) succeeds; when it does not, the call raises OSError;
  \<^item> \<open>gmtime_ok ms\<close> tells whether \<^verbatim>\<open>time.gmtime(ms/1000.)\<close> is within the platform's
    range; outside it the call raises;
  \<^item> \<open>stream_tell\<close> is the position that a stream handed in as the output reports
    from \<^verbatim>\<open>tell()\<close>, given what the stream holds: it is the stream's own business (a
    count of characters for a text stream in memory, 0 for a descriptor in append mode that
    was not written to yet, a byte offset for a regular file).
\<close>

datatype reply = Raised | Reply (status_code: nat) (body: "json option")

type_synonym args = "(string \<times> string) list"

record 'w env =
  post :: "string \<Rightarrow> args \<Rightarrow> 'w \<Rightarrow> reply \<times> 'w"
  utcoff :: "int \<Rightarrow> int"
  clock :: "'w \<Rightarrow> real"
  wait :: "real \<Rightarrow> 'w \<Rightarrow> 'w"
  is_set :: "'w \<Rightarrow> bool"
  io_ok :: "nat \<Rightarrow> bool"
  gmtime_ok :: "int \<Rightarrow> bool"
  stream_tell :: "string \<Rightarrow> nat"

text \<open>
  \<^verbatim>\<open>config.output\<close>: nothing, a path, \<^verbatim>\<open>sys.stdout\<close>, another object with a
  \<^verbatim>\<open>write\<close> method, or an object without one.  \<^verbatim>\<open>config.start\<close> and
  \<^verbatim>\<open>config.end\<close> are epoch seconds or \<^verbatim>\<open>None\<close>.
\<close>

datatype destination = NoOutput | Path string | Stdout | Writer | Other

record config =
  config_tail :: bool
  config_batch :: bool
  config_start :: "int option"
  config_end :: "int option"
  config_log_type :: string
  config_output :: destination

text \<open>
  The object bound to \<^verbatim>\<open>out\<close>: the file opened on a path, or the stream that was
  handed in.  \<open>calls\<close> lists the calls made on it, oldest first, whether they raised or
  not.
\<close>

datatype out = File string | Stream

datatype call = Open string | Write string | Flush | Tell | Close

datatype printed = Start int | End int | Total nat nat int

text \<open>
  The state: the world, the two counters of the \<^verbatim>\<open>EventLogAPI\<close> object, the bytes of
  the files by path and of the stream handed in, and three logs kept for the statements
  below: the calls on the output object, the requests posted, the summary lines printed.
\<close>

record 'w state =
  world :: 'w
  line_count :: nat
  error_count :: nat
  files :: "string \<Rightarrow> string option"
  stream :: string
  calls :: "call list"
  requests :: "(string \<times> args) list"
  prints :: "printed list"

subsection \<open>The output object\<close>

text \<open>The UTF-8 encoding of a code point below 256: one byte, or two from U+0080 on.\<close>

definition utf8_char :: "char \<Rightarrow> string" where
  "utf8_char c = (let n = (of_char c :: nat) in
     if n < 128 then [c] else [char_of (192 + n div 64), char_of (128 + n mod 64)])"

definition utf8 :: "string \<Rightarrow> string" where
  "utf8 s = concat (map utf8_char s)"

fun content :: "out \<Rightarrow> 'w state \<Rightarrow> string" where
  "content (File p) st = (case files st p of None \<Rightarrow> [] | Some bs \<Rightarrow> bs)"
| "content Stream st = stream st"

fun append_bytes :: "out \<Rightarrow> string \<Rightarrow> 'w state \<Rightarrow> 'w state" where
  "append_bytes (File p) bs st = st\<lparr>files := (files st)(p \<mapsto> content (File p) st @ bs)\<rparr>"
| "append_bytes Stream bs st = st\<lparr>stream := stream st @ bs\<rparr>"

text \<open>
  Each operation logs its call and asks \<open>io_ok\<close> whether it succeeds.  The file is a
  text file with encoding UTF-8 on a platform whose line separator is the newline;
  buffering is not represented, so the bytes of a successful \<^verbatim>\<open>write\<close> are in place at
  once.
\<close>

definition "write" :: "'w env \<Rightarrow> out \<Rightarrow> string \<Rightarrow> 'w state \<Rightarrow> bool \<times> 'w state" where
  "write env output line st =
     (let st1 = st\<lparr>calls := calls st @ [Write line]\<rparr>
      in if io_ok env (length (calls st)) then (True, append_bytes output (utf8 line) st1)
         else (False, st1))"

definition flush :: "'w env \<Rightarrow> 'w state \<Rightarrow> bool \<times> 'w state" where
  "flush env st = (io_ok env (length (calls st)), st\<lparr>calls := calls st @ [Flush]\<rparr>)"

text \<open>
  \<^verbatim>\<open>out.tell()\<close>: on the file opened here, which is written from its start in UTF-8,
  the number of its bytes; on a stream that was handed in, what the stream reports.
\<close>

fun position :: "'w env \<Rightarrow> out \<Rightarrow> 'w state \<Rightarrow> nat" where
  "position env (File p) st = length (content (File p) st)"
| "position env Stream st = stream_tell env (stream st)"

definition tell :: "'w env \<Rightarrow> out \<Rightarrow> 'w state \<Rightarrow> nat option \<times> 'w state" where
  "tell env output st =
     (if io_ok env (length (calls st)) then Some (position env output st) else None,
      st\<lparr>calls := calls st @ [Tell]\<rparr>)"

definition close :: "'w env \<Rightarrow> 'w state \<Rightarrow> bool \<times> 'w state" where
  "close env st = (io_ok env (length (calls st)), st\<lparr>calls := calls st @ [Close]\<rparr>)"


section \<open>\<^verbatim>\<open>EventLogAPI\<close>\<close>

definition PULL_INTERVAL_SEC :: int where
  "PULL_INTERVAL_SEC = 15"

definition COLLECTION_DELAY_MINUTES :: int where
  "COLLECTION_DELAY_MINUTES = 1"

definition SOURCE :: string where
  "SOURCE = ''akamai-cli/eaa''"

datatype EventType = USER_ACCESS | ADMIN


definition ADMINEVENT_API :: string where
  "ADMINEVENT_API = ''adminevents-reports/ops/splunk-query''"

definition ACCESSLOG_API :: string where
  "ACCESSLOG_API = ''analytics/ops''"

definition get_api_url :: "EventType \<Rightarrow> string" where
  "get_api_url logtype = (if logtype = ADMIN then ADMINEVENT_API else ACCESSLOG_API)"


definition init :: "'w \<Rightarrow> (string \<Rightarrow> string option) \<Rightarrow> string \<Rightarrow> 'w state" where
  "init w fs s = \<lparr>world = w, line_count = 0, error_count = 0, files = fs, stream = s,
     calls = [], requests = [], prints = []\<rparr>"

subsection \<open>\<^verbatim>\<open>get_logs\<close>\<close>

definition newline :: string where
  "newline = [CHR 0x0A]"

text \<open>
  One pass of the loop over the items of a user access message.  Every exception raised
  in the body is caught by the handler of the record, which logs it and goes on to the
  next item.
\<close>

definition access_record :: "'w env \<Rightarrow> out \<Rightarrow> string \<times> json \<Rightarrow> 'w state \<Rightarrow> 'w state" where
  "access_record env output tr st =
     (case tr of (timestamp, response) \<Rightarrow>
        if \<not> isdigit timestamp then st
        else
          (case py_getitem response ''flog'' of
             None \<Rightarrow> st
           | Some flog \<Rightarrow>
            (case py_int timestamp of
               None \<Rightarrow> st
             | Some n \<Rightarrow>
                 (case fromtimestamp (utcoff env) (n div 1000) of
                    None \<Rightarrow> st
                  | Some local_time \<Rightarrow>
                      if is_dict response \<and> py_in ''flog'' response = Some True then
                        (case flog of
                           JStr f \<Rightarrow>
                             (case write env output (isoformat local_time @ '' '' @ f @ newline) st of
                                (True, st1) \<Rightarrow> st1\<lparr>line_count := line_count st1 + 1\<rparr>
                              | (False, st1) \<Rightarrow> st1)
                         | _ \<Rightarrow> st)
                      else st))))"

text \<open>
  \<^verbatim>\<open>int(ts/1000)\<close>: the quotient of an integer (a boolean counts as 0 or 1), cut towards
  zero; TypeError (\<open>None\<close>) on the other values.  The quotient is computed exactly here;
  where the float's rounding could change it, the date is beyond the year 9999 either
  way.
\<close>

fun ts_seconds :: "json \<Rightarrow> int option" where
  "ts_seconds (JInt n) = Some (sgn n * (\<bar>n\<bar> div 1000))"
| "ts_seconds (JBool b) = Some 0"
| "ts_seconds _ = None"

text \<open>
  One pass of the loop over the data of an admin message.  The handler of the record
  evaluates \<^verbatim>\<open>item.get('splunk_line')\<close> itself, so on an item that is not a
  \<^verbatim>\<open>dict\<close> the handler raises in turn and the exception leaves the loop: the flag
  returned is \<open>True\<close> then.
\<close>

definition admin_record :: "'w env \<Rightarrow> out \<Rightarrow> json \<Rightarrow> 'w state \<Rightarrow> bool \<times> 'w state" where
  "admin_record env output item st =
     (case py_get item ''ts'' of
        None \<Rightarrow> (True, st)
      | Some ts \<Rightarrow>
          (case ts_seconds ts of
             None \<Rightarrow> (False, st)
           | Some secs \<Rightarrow>
               (case fromtimestamp (utcoff env) secs of
                  None \<Rightarrow> (False, st)
                | Some local_time \<Rightarrow>
                    (case py_get item ''splunk_line'' of
                       None \<Rightarrow> (True, st)
                     | Some splunk_line \<Rightarrow>
                         (case write env output
                                 (isoformat local_time @ '','' @ py_str splunk_line @ newline) st of
                            (True, st1) \<Rightarrow> (False, st1\<lparr>line_count := line_count st1 + 1\<rparr>)
                          | (False, st1) \<Rightarrow> (False, st1))))))"

fun admin_records :: "'w env \<Rightarrow> out \<Rightarrow> json list \<Rightarrow> 'w state \<Rightarrow> bool \<times> 'w state" where
  "admin_records env output [] st = (False, st)"
| "admin_records env output (item # items) st =
     (case admin_record env output item st of
        (True, st1) \<Rightarrow> (True, st1)
      | (False, st1) \<Rightarrow> admin_records env output items st1)"

text \<open>
  The part of \<^verbatim>\<open>get_logs\<close> that runs when the response has a message.  The result is
  the value of \<^verbatim>\<open>scroll_id\<close> when the function returns: \<open>JNull\<close> (\<^verbatim>\<open>None\<close>) until
  the assignment is reached, whatever is raised afterwards.
\<close>

definition access_page :: "'w env \<Rightarrow> out \<Rightarrow> json \<Rightarrow> 'w state \<Rightarrow> json \<times> 'w state" where
  "access_page env output resj st =
     (case Option.bind (Option.bind (py_get resj ''message'') (\<lambda>m. py_index m 0))
             (\<lambda>m. py_index m 1) of
        None \<Rightarrow> (JNull, st)
      | Some msg \<Rightarrow>
          (case py_get msg ''scroll_id'' of
             None \<Rightarrow> (JNull, st)
           | Some scroll_id \<Rightarrow>
               (case msg of
                  JObj kvs \<Rightarrow> (scroll_id, fold (access_record env output) kvs st)
                | _ \<Rightarrow> (scroll_id, st))))"

definition admin_page :: "'w env \<Rightarrow> out \<Rightarrow> json \<Rightarrow> 'w state \<Rightarrow> json \<times> 'w state" where
  "admin_page env output resj st =
     (case py_get resj ''message'' of
        None \<Rightarrow> (JNull, st)
      | Some msg \<Rightarrow>
          (case Option.bind (py_get msg ''metadata'') (py_in ''scroll_id'') of
             None \<Rightarrow> (JNull, st)
           | Some has \<Rightarrow>
               (case (if has then Option.bind (py_get msg ''metadata'') (\<lambda>m. py_get m ''scroll_id'')
                      else Some JNull) of
                  None \<Rightarrow> (JNull, st)
                | Some scroll_id \<Rightarrow>
                    (case Option.bind (py_get msg ''data'') py_iter of
                       None \<Rightarrow> (scroll_id, st)
                     | Some items \<Rightarrow> (scroll_id, snd (admin_records env output items st))))))"

text \<open>
  \<^verbatim>\<open>get_logs\<close> returns \<^verbatim>\<open>scroll_id\<close>.  Its outer handler catches every exception, so
  the function always returns; an argument that is not an \<^verbatim>\<open>EventType\<close> is excluded
  by the type.
\<close>

definition get_logs ::
  "'w env \<Rightarrow> args \<Rightarrow> EventType \<Rightarrow> out \<Rightarrow> 'w state \<Rightarrow> json \<times> 'w state" where
  "get_logs env drpc_args logtype output st =
     (let st0 = st\<lparr>requests := requests st @ [(get_api_url logtype, drpc_args)]\<rparr>
      in case post env (get_api_url logtype) drpc_args (world st) of
        (Raised, w) \<Rightarrow> (JNull, st0\<lparr>world := w\<rparr>)
      | (Reply code resj_opt, w) \<Rightarrow>
          (let st1 = st0\<lparr>world := w\<rparr>
           in if code \<noteq> 200 then (JNull, st1)
              else case resj_opt of
                None \<Rightarrow> (JNull, st1)
              | Some resj \<Rightarrow>
                  (case py_in ''message'' resj of
                     None \<Rightarrow> (JNull, st1)
                   | Some True \<Rightarrow>
                       (case logtype of
                          USER_ACCESS \<Rightarrow> access_page env output resj st1
                        | ADMIN \<Rightarrow> admin_page env output resj st1)
                   | Some False \<Rightarrow> (JNull, st1\<lparr>error_count := error_count st1 + 1\<rparr>))))"

subsection \<open>\<^verbatim>\<open>date_boundaries\<close>\<close>

text \<open>
  \<open>now\<close> is the clock, in seconds: \<^verbatim>\<open>time.mktime(time.localtime())\<close> is its whole
  part.  \<^verbatim>\<open>config.end\<close> and \<^verbatim>\<open>config.start\<close> are tested for truth, which \<^verbatim>\<open>None\<close>
  and 0 fail.
\<close>

fun truthy :: "int option \<Rightarrow> bool" where
  "truthy None = False"
| "truthy (Some n) = (n \<noteq> 0)"

definition date_boundaries :: "config \<Rightarrow> real \<Rightarrow> int \<times> int" where
  "date_boundaries cfg now =
     (let ets0 = \<lfloor>now\<rfloor> * 1000 - COLLECTION_DELAY_MINUTES * 60 * 1000;
          ets = (if \<not> config_tail cfg \<and> truthy (config_end cfg)
                 then the (config_end cfg) * 1000 else ets0);
          sts0 = ets - PULL_INTERVAL_SEC * 1000;
          sts = (if \<not> config_tail cfg \<and> truthy (config_start cfg)
                 then the (config_start cfg) * 1000 else sts0)
      in (ets, sts))"

subsection \<open>\<^verbatim>\<open>fetch_logs\<close>\<close>

text \<open>
  The request of one page.  The cursor is \<open>JNull\<close> (\<^verbatim>\<open>None\<close>) for the first page of
  a window; any other value goes into the request as \<^verbatim>\<open>str(scroll_id)\<close>.
\<close>

definition drpc_args :: "int \<Rightarrow> int \<Rightarrow> json \<Rightarrow> args" where
  "drpc_args sts ets scroll_id =
     [(''sts'', str_int sts), (''ets'', str_int ets), (''metrics'', ''logs''),
      (''es_fields'', ''flog''), (''limit'', ''1000''), (''sub_metrics'', ''scroll''),
      (''source'', SOURCE)]
     @ (if scroll_id \<noteq> JNull then [(''scroll_id'', py_str scroll_id)] else [])"

text \<open>
  The inner loop, over the pages of one window.  It has no bound of its own, so it is a
  partial function: \<open>None\<close> is the run that never leaves the loop.  The flag returned
  tells how the loop was left: \<open>False\<close> by \<^verbatim>\<open>break\<close>, \<open>True\<close> by the exception of
  a failed \<^verbatim>\<open>out.flush()\<close>.
\<close>

partial_function (option) drain ::
  "'w env \<Rightarrow> EventType \<Rightarrow> int \<Rightarrow> int \<Rightarrow> out \<Rightarrow> json \<Rightarrow> 'w state \<Rightarrow> (bool \<times> 'w state) option"
where
  "drain env log_type sts ets out scroll_id st =
     (case get_logs env (drpc_args sts ets scroll_id) log_type out st of
        (scroll_id', st1) \<Rightarrow>
          (case flush env st1 of
             (flushed, st2) \<Rightarrow>
               if \<not> flushed then Some (True, st2)
               else if scroll_id' = JNull then Some (False, st2)
               else drain env log_type sts ets out scroll_id' st2))"

text \<open>
  The summary of a run that is neither tail nor batch.  \<^verbatim>\<open>out.tell()\<close> and the two
  \<^verbatim>\<open>time.gmtime\<close> calls may raise; what was printed before stays printed.
\<close>

definition print_summary ::
  "'w env \<Rightarrow> out \<Rightarrow> nat \<Rightarrow> int \<Rightarrow> int \<Rightarrow> 'w state \<Rightarrow> 'w state" where
  "print_summary env out start_position sts ets st =
     (case tell env out st of
        (None, st1) \<Rightarrow> st1
      | (Some pos, st1) \<Rightarrow>
          (let total_bytes = int pos - int start_position
           in if \<not> gmtime_ok env sts then st1
              else let st2 = st1\<lparr>prints := prints st1 @ [Start sts]\<rparr>
                in if \<not> gmtime_ok env ets then st2
                   else st2\<lparr>prints := prints st2 @
                          [End ets, Total (line_count st2) (error_count st2) total_bytes]\<rparr>))"

text \<open>
  The outer loop, one window per pass.  An exception that leaves the inner loop leaves
  this one too; both ways out lead to the \<^verbatim>\<open>finally\<close> clause of \<^verbatim>\<open>fetch_logs\<close>.
\<close>

partial_function (option) poll ::
  "'w env \<Rightarrow> config \<Rightarrow> EventType \<Rightarrow> out \<Rightarrow> nat \<Rightarrow> 'w state \<Rightarrow> 'w state option"
where
  "poll env cfg log_type out start_position st =
     (case date_boundaries cfg (clock env (world st)) of
        (ets, sts) \<Rightarrow>
          Option.bind (drain env log_type sts ets out JNull st)
            (\<lambda>r. case r of
               (raised, st1) \<Rightarrow>
                 if raised then Some st1
                 else if \<not> config_tail cfg then
                   Some (if \<not> config_batch cfg
                         then print_summary env out start_position sts ets st1 else st1)
                 else
                   (let elapsed = clock env (world st1) - clock env (world st);
                        st2 = st1\<lparr>world :=
                                wait env (real_of_int PULL_INTERVAL_SEC - elapsed) (world st1)\<rparr>
                    in if is_set env (world st2) then Some st2
                       else poll env cfg log_type out start_position st2)))"





section \<open>Runs of the loops\<close>

text \<open>
  One pass of the body of the pagination loop: the request, the records, the flush.  The
  result is whether the flush succeeded, the cursor returned, and the state.
\<close>

definition pass ::
  "'w env \<Rightarrow> EventType \<Rightarrow> int \<Rightarrow> int \<Rightarrow> out \<Rightarrow> json \<Rightarrow> 'w state \<Rightarrow> bool \<times> json \<times> 'w state" where
  "pass env log_type sts ets out scroll_id st =
     (case get_logs env (drpc_args sts ets scroll_id) log_type out st of
        (scroll_id', st1) \<Rightarrow>
          (case flush env st1 of (flushed, st2) \<Rightarrow> (flushed, scroll_id', st2)))"

text \<open>
  \<open>passes n\<close> is the pass number \<open>n\<close>, counted from 0, of a loop that starts with the
  cursor \<open>scroll_id\<close> and feeds each pass the cursor and the state of the pass before.
  A pass is the last one when its flush fails or it returns no cursor.
\<close>

fun passes ::
  "'w env \<Rightarrow> EventType \<Rightarrow> int \<Rightarrow> int \<Rightarrow> out \<Rightarrow> nat \<Rightarrow> json \<Rightarrow> 'w state \<Rightarrow> bool \<times> json \<times> 'w state" where
  "passes env log_type sts ets out 0 scroll_id st = pass env log_type sts ets out scroll_id st"
| "passes env log_type sts ets out (Suc n) scroll_id st =
     (case pass env log_type sts ets out scroll_id st of
        (flushed, scroll_id', st') \<Rightarrow> passes env log_type sts ets out n scroll_id' st')"

definition last_pass :: "bool \<times> json \<times> 'w state \<Rightarrow> bool" where
  "last_pass r = (case r of (flushed, scroll_id, st) \<Rightarrow> \<not> flushed \<or> scroll_id = JNull)"

text \<open>
  The calls that a sequence of pages makes on the output: for each page the writes of
  its lines, then its flush.
\<close>

definition flushed :: "string list list \<Rightarrow> call list" where
  "flushed pages = concat (map (\<lambda>ls. map Write ls @ [Flush]) pages)"

text \<open>
  The bytes that a list of calls puts into the output, the first call of the list being
  call number \<open>n\<close>: the encoded lines of the writes that succeed.
\<close>

fun written :: "'w env \<Rightarrow> nat \<Rightarrow> call list \<Rightarrow> string" where
  "written env n [] = []"
| "written env n (Write l # cs) = (if io_ok env n then utf8 l else []) @ written env (Suc n) cs"
| "written env n (c # cs) = written env (Suc n) cs"

text \<open>
  \<open>extends env out st st' cs k ps\<close>: from \<open>st\<close> to \<open>st'\<close> the calls \<open>cs\<close> were made
  on the output, whose bytes are those of \<open>st\<close> followed by what the calls wrote,
  \<open>k\<close> requests were posted and \<open>ps\<close> was printed.
\<close>

definition extends ::
  "'w env \<Rightarrow> out \<Rightarrow> 'w state \<Rightarrow> 'w state \<Rightarrow> call list \<Rightarrow> nat \<Rightarrow> printed list \<Rightarrow> bool" where
  "extends env out st st' cs k ps \<longleftrightarrow>
     calls st' = calls st @ cs
     \<and> content out st' = content out st @ written env (length (calls st)) cs
     \<and> length (requests st') = length (requests st) + k
     \<and> prints st' = prints st @ ps"

declare drain.simps [code] poll.simps [code]

section \<open>Example inputs\<close>

text \<open>A bounded run (neither tail nor batch) of the access log into the file \<^verbatim>\<open>eaa.log\<close>.\<close>

definition bounded_config :: config where
  "bounded_config = \<lparr>config_tail = False, config_batch = False, config_start = None,
     config_end = None, config_log_type = ''access'', config_output = Path ''eaa.log''\<rparr>"

text \<open>
  A simulated world: the service answers with the replies of a script, one per request,
  and refuses the connection when the script is used up; a request takes one second; the
  stop event is set at the instant \<open>signal_at\<close>, if any, and a wait ends at that
  instant or when its time is over.  Local time is UTC, no call on the output fails, and
  a stream reports the number of its bytes.
\<close>

record sim =
  replies :: "reply list"
  sim_time :: real
  signal_at :: "real option"

definition sim_is_set :: "sim \<Rightarrow> bool" where
  "sim_is_set w = (case signal_at w of None \<Rightarrow> False | Some s \<Rightarrow> s \<le> sim_time w)"

definition sim_wait :: "real \<Rightarrow> sim \<Rightarrow> sim" where
  "sim_wait t w =
     (if sim_is_set w then w
      else case signal_at w of
        None \<Rightarrow> w\<lparr>sim_time := sim_time w + max 0 t\<rparr>
      | Some s \<Rightarrow> w\<lparr>sim_time := min s (sim_time w + max 0 t)\<rparr>)"

definition sim_post :: "string \<Rightarrow> args \<Rightarrow> sim \<Rightarrow> reply \<times> sim" where
  "sim_post url a w =
     (case replies w of
        [] \<Rightarrow> (Raised, w\<lparr>sim_time := sim_time w + 1\<rparr>)
      | r # rs \<Rightarrow> (r, w\<lparr>replies := rs, sim_time := sim_time w + 1\<rparr>))"

definition sim_env :: "sim env" where
  "sim_env = \<lparr>post = sim_post, utcoff = (\<lambda>t. 0), clock = sim_time, wait = sim_wait,
     is_set = sim_is_set, io_ok = (\<lambda>n. True), gmtime_ok = (\<lambda>ms. True),
     stream_tell = length\<rparr>"

definition sim_world :: "reply list \<Rightarrow> sim" where
  "sim_world rs = \<lparr>replies = rs, sim_time = 1700000000, signal_at = None\<rparr>"

definition sim_state :: "reply list \<Rightarrow> sim state" where
  "sim_state rs = init (sim_world rs) (Map.empty(''eaa.log'' \<mapsto> ''old line'' @ newline)) []"

definition no_message :: reply where
  "no_message = Reply 200 (Some (JObj [(''error'', JStr ''no data'')]))"

definition server_error :: reply where
  "server_error = Reply 500 (Some (JObj [(''error'', JStr ''no data'')]))"

definition null_body :: reply where
  "null_body = Reply 200 (Some JNull)"

definition access_reply :: "json \<Rightarrow> reply" where
  "access_reply c = Reply 200 (Some (JObj [(''message'', JArr [JArr [JInt 0,
     JObj [(''scroll_id'', c),
           (''1700000000000'', JObj [(''flog'', JStr ''line-A'')]),
           (''1700000060000'', JObj [(''user'', JStr ''nobody'')]),
           (''1700086400000'', JObj [(''flog'', JStr ''line-C'')])]]])]))"

definition admin_reply :: "json \<Rightarrow> json list \<Rightarrow> reply" where
  "admin_reply c items = Reply 200 (Some (JObj [(''message'',
     JObj [(''metadata'', JObj [(''scroll_id'', c)]), (''data'', JArr items)])]))"

text \<open>Replies of the service.\<close>

definition line_A_reply :: reply where
  "line_A_reply = Reply 200 (Some (JObj [(''message'', JArr [JArr [JInt 0,
     JObj [(''metadata'', JObj []),
           (''1700000000000'', JObj [(''flog'', JStr ''line-A'')])]]])]))"

definition mapping_reply :: reply where
  "mapping_reply = Reply 200 (Some (JObj [(''message'',
     JObj [(''metadata'', JObj []),
           (''1700000000000'', JObj [(''flog'', JStr ''line-A'')])])]))"


text \<open>Three pages whose cursors are \<^verbatim>\<open>c1\<close>, \<^verbatim>\<open>c2\<close> and none.\<close>

definition three_pages :: "sim state" where
  "three_pages = sim_state [access_reply (JStr ''c1''), access_reply (JStr ''c2''), access_reply JNull]"

text \<open>An output that takes two calls and fails from the third on.\<close>

definition flush_fails :: "sim env" where
  "flush_fails = sim_env\<lparr>io_ok := (\<lambda>n. n < 2)\<rparr>"

text \<open>
  What a summary line says, against the state \<open>st'\<close> at the end: the counters, and
  the position of the output less the position \<open>sp\<close> taken at the start.
\<close>

definition summary_ok :: "'w env \<Rightarrow> out \<Rightarrow> nat \<Rightarrow> 'w state \<Rightarrow> printed list \<Rightarrow> bool" where
  "summary_ok env out sp st' ps \<longleftrightarrow>
     (\<forall>l e n. Total l e n \<in> set ps \<longrightarrow>
        n = int (position env out st') - int sp \<and> l = line_count st' \<and> e = error_count st')"

text \<open>
  A run in tail mode, and a world whose stop event is set at the instant \<open>t\<close>, with no
  file on the disk.
\<close>

definition tail_config :: config where
  "tail_config = bounded_config\<lparr>config_tail := True\<rparr>"

definition stopped_at :: "real \<Rightarrow> reply list \<Rightarrow> sim state" where
  "stopped_at t rs = init ((sim_world rs)\<lparr>signal_at := Some t\<rparr>) Map.empty []"

section \<open>Properties\<close>

subsection \<open>The time window\<close>

text \<open>
  C9.  Outside tail mode, an override whose value is 0 is treated as one that was not
  given: with \<^verbatim>\<open>config.end\<close> at 0 the window is the one computed with \<^verbatim>\<open>config.end\<close>
  at \<^verbatim>\<open>None\<close>, likewise for \<^verbatim>\<open>config.start\<close>, and with both at 0 the window is the
  rolling default.
\<close>

theorem zero_override_is_absent:
  "date_boundaries (cfg\<lparr>config_end := Some 0\<rparr>) now = date_boundaries (cfg\<lparr>config_end := None\<rparr>) now
   \<and> date_boundaries (cfg\<lparr>config_start := Some 0\<rparr>) now
       = date_boundaries (cfg\<lparr>config_start := None\<rparr>) now
   \<and> date_boundaries (cfg\<lparr>config_start := Some 0, config_end := Some 0\<rparr>) now
       = (\<lfloor>now\<rfloor> * 1000 - 60000, \<lfloor>now\<rfloor> * 1000 - 75000)"
  by (simp add: date_boundaries_def Let_def COLLECTION_DELAY_MINUTES_def PULL_INTERVAL_SEC_def)

text \<open>
  C5, as stated, fails: a bounded run whose end override is given as 0 does not end its
  window at 0 milliseconds but one minute before the clock.
\<close>

theorem end_override_zero_counterexample:
  "fst (date_boundaries (bounded_config\<lparr>config_end := Some 0\<rparr>) 1700000000) = 1699999940000
   \<and> fst (date_boundaries (bounded_config\<lparr>config_end := Some 0\<rparr>) 1700000000) \<noteq> 0 * 1000"
  by (simp add: date_boundaries_def Let_def COLLECTION_DELAY_MINUTES_def PULL_INTERVAL_SEC_def
      bounded_config_def)

text \<open>
  C5, amended.  In tail mode or without an end override, the window ends at the whole
  seconds of the clock, in milliseconds, less 60000; in tail mode or without a start
  override, it starts 15000 before its end; outside tail mode an end or start override
  that is not 0 is used as it is, in milliseconds.
\<close>

theorem date_boundaries_window:
  "(config_tail cfg \<or> config_end cfg = None
      \<longrightarrow> fst (date_boundaries cfg now) = \<lfloor>now\<rfloor> * 1000 - 60000)
   \<and> (config_tail cfg \<or> config_start cfg = None
      \<longrightarrow> snd (date_boundaries cfg now) = fst (date_boundaries cfg now) - 15000)
   \<and> (\<not> config_tail cfg \<and> config_end cfg = Some e \<and> e \<noteq> 0
      \<longrightarrow> fst (date_boundaries cfg now) = e * 1000)
   \<and> (\<not> config_tail cfg \<and> config_start cfg = Some s \<and> s \<noteq> 0
      \<longrightarrow> snd (date_boundaries cfg now) = s * 1000)"
  by (simp add: date_boundaries_def Let_def COLLECTION_DELAY_MINUTES_def PULL_INTERVAL_SEC_def)

theorem date_boundaries_window_witness:
  "fst (date_boundaries bounded_config (17000000005 / 10)) = 1699999940000
   \<and> snd (date_boundaries bounded_config (17000000005 / 10)) = 1699999925000
   \<and> fst (date_boundaries (bounded_config\<lparr>config_start := Some 1600000000,
        config_end := Some 1600003600\<rparr>) (17000000005 / 10)) = 1600003600000
   \<and> snd (date_boundaries (bounded_config\<lparr>config_start := Some 1600000000,
        config_end := Some 1600003600\<rparr>) (17000000005 / 10)) = 1600000000000"
  using date_boundaries_window [of bounded_config "17000000005 / 10"]
    date_boundaries_window [of "bounded_config\<lparr>config_start := Some 1600000000,
        config_end := Some 1600003600\<rparr>" "17000000005 / 10" 1600003600 1600000000]
  by (simp add: bounded_config_def)

subsection \<open>Frame lemmas for the counters and the record loops\<close>

lemma write_error_count [simp]: "error_count (snd (write env out l st)) = error_count st"
  by (cases out) (simp_all add: write_def Let_def)

lemma access_record_error_count [simp]:
  "error_count (access_record env out tr st) = error_count st"
proof -
  have w: "\<And>l b st1. write env out l st = (b, st1) \<Longrightarrow> error_count st1 = error_count st"
    by (metis snd_conv write_error_count)
  show ?thesis
    by (auto simp: access_record_def dest: w split: prod.splits option.splits json.splits bool.splits)
qed

lemma fold_access_record_error_count [simp]:
  "error_count (fold (access_record env out) rs st) = error_count st"
  by (induction rs arbitrary: st) simp_all

lemma admin_record_error_count [simp]:
  "error_count (snd (admin_record env out item st)) = error_count st"
proof -
  have w: "\<And>l b st1. write env out l st = (b, st1) \<Longrightarrow> error_count st1 = error_count st"
    by (metis snd_conv write_error_count)
  show ?thesis
    by (auto simp: admin_record_def dest: w split: prod.splits option.splits bool.splits)
qed

lemma admin_records_error_count [simp]:
  "error_count (snd (admin_records env out items st)) = error_count st"
proof (induction items arbitrary: st)
  case Nil
  show ?case by simp
next
  case (Cons item items)
  show ?case
  proof (cases "admin_record env out item st")
    case (Pair raised st1)
    have "error_count st1 = error_count st"
      using admin_record_error_count [of env out item st] Pair by simp
    then show ?thesis
      using Pair Cons.IH [of st1] by (cases raised) simp_all
  qed
qed

lemma access_record_skipped:
  assumes "\<not> isdigit k \<or> py_int k = None \<or> py_getitem v ''flog'' = None
           \<or> (\<exists>n. py_int k = Some n \<and> fromtimestamp (utcoff env) (n div 1000) = None)
           \<or> (\<exists>j. py_getitem v ''flog'' = Some j \<and> (\<forall>f. j \<noteq> JStr f))"
  shows "access_record env out (k, v) st = st"
  using assms by (auto simp: access_record_def split: option.splits json.splits)

lemma admin_record_dict: "is_dict item \<Longrightarrow> \<not> fst (admin_record env out item st)"
  by (cases item) (auto simp: admin_record_def split: option.splits prod.splits bool.splits)

lemma admin_records_dicts: "list_all is_dict items \<Longrightarrow> \<not> fst (admin_records env out items st)"
proof (induction items arbitrary: st)
  case Nil
  show ?case by simp
next
  case (Cons item items)
  then show ?case
    using admin_record_dict [of item env out st]
    by (cases "admin_record env out item st") (auto split: bool.splits)
qed

lemma admin_records_append:
  "\<not> fst (admin_records env out is1 st) \<Longrightarrow>
   admin_records env out (is1 @ is2) st = admin_records env out is2 (snd (admin_records env out is1 st))"
proof (induction is1 arbitrary: st)
  case Nil
  show ?case by simp
next
  case (Cons item is1)
  then show ?case
    by (cases "admin_record env out item st") (auto split: bool.splits)
qed

lemma admin_record_skipped:
  assumes "ts_seconds (case map_of kv ''ts'' of None \<Rightarrow> JNull | Some t \<Rightarrow> t) = None
           \<or> (\<exists>n. ts_seconds (case map_of kv ''ts'' of None \<Rightarrow> JNull | Some t \<Rightarrow> t) = Some n
                 \<and> fromtimestamp (utcoff env) n = None)"
  shows "admin_record env out (JObj kv) st = (False, st)"
  using assms by (auto simp: admin_record_def split: option.splits)

lemma map_of_key: "map_of kvs k = Some v \<Longrightarrow> k \<in> fst ` set kvs"
  by (metis map_of_eq_None_iff option.distinct(1))

subsection \<open>Pages\<close>

text \<open>
  C4, as stated, fails: a response with status 500 whose body is an object without the
  key \<^verbatim>\<open>message\<close> makes \<^verbatim>\<open>get_logs\<close> return before the body is looked at, and a
  response with status 200 whose body is \<^verbatim>\<open>null\<close> makes the test
  \<^verbatim>\<open>'message' in resj\<close> raise, which the outer handler catches; in both cases the
  error counter keeps its value.
\<close>

theorem missing_message_counterexample:
  "error_count (snd (get_logs sim_env (drpc_args 1699999925000 1699999940000 JNull) USER_ACCESS
       (File ''eaa.log'') (sim_state [server_error])))
     = error_count (sim_state [server_error])
   \<and> error_count (snd (get_logs sim_env (drpc_args 1699999925000 1699999940000 JNull)
       USER_ACCESS (File ''eaa.log'') (sim_state [server_error])))
     \<noteq> error_count (sim_state [server_error]) + 1
   \<and> error_count (snd (get_logs sim_env (drpc_args 1699999925000 1699999940000 JNull)
       USER_ACCESS (File ''eaa.log'') (sim_state [null_body])))
     = error_count (sim_state [null_body])
   \<and> error_count (snd (get_logs sim_env (drpc_args 1699999925000 1699999940000 JNull)
       USER_ACCESS (File ''eaa.log'') (sim_state [null_body])))
     \<noteq> error_count (sim_state [null_body]) + 1"
  by code_simp

text \<open>
  C4, amended.  When the response has status 200 and its JSON body is an object without
  the key \<^verbatim>\<open>message\<close>, \<^verbatim>\<open>get_logs\<close> adds exactly 1 to the error counter, makes no
  call on the output, and returns no cursor; the pagination of the window ends with that
  request (after its flush).
\<close>

theorem missing_message:
  assumes "post env (get_api_url lt) (drpc_args sts ets c) (world st) = (Reply 200 (Some (JObj kvs)), w)"
    and "''message'' \<notin> fst ` set kvs"
  shows "get_logs env (drpc_args sts ets c) lt out st =
           (JNull, st\<lparr>world := w, error_count := error_count st + 1,
                      requests := requests st @ [(get_api_url lt, drpc_args sts ets c)]\<rparr>)
         \<and> drain env lt sts ets out c st =
           Some (\<not> io_ok env (length (calls st)),
                 st\<lparr>world := w, error_count := error_count st + 1,
                    requests := requests st @ [(get_api_url lt, drpc_args sts ets c)],
                    calls := calls st @ [Flush]\<rparr>)"
proof -
  have g: "get_logs env (drpc_args sts ets c) lt out st =
           (JNull, st\<lparr>world := w, error_count := error_count st + 1,
                      requests := requests st @ [(get_api_url lt, drpc_args sts ets c)]\<rparr>)"
    using assms by (simp add: get_logs_def Let_def)
  show ?thesis
    by (subst drain.simps) (simp add: g flush_def)
qed


theorem missing_message_witness:
  "post sim_env (get_api_url USER_ACCESS) (drpc_args 1699999925000 1699999940000 JNull)
       (world (sim_state [no_message]))
     = (Reply 200 (Some (JObj [(''error'', JStr ''no data'')])), (sim_world [])\<lparr>sim_time := 1700000001\<rparr>)
   \<and> ''message'' \<notin> fst ` set [(''error'', JStr ''no data'')]
   \<and> fst (get_logs sim_env (drpc_args 1699999925000 1699999940000 JNull) USER_ACCESS
            (File ''eaa.log'') (sim_state [no_message])) = JNull
   \<and> error_count (snd (get_logs sim_env (drpc_args 1699999925000 1699999940000 JNull)
        USER_ACCESS (File ''eaa.log'') (sim_state [no_message]))) = 1
   \<and> calls (snd (get_logs sim_env (drpc_args 1699999925000 1699999940000 JNull)
        USER_ACCESS (File ''eaa.log'') (sim_state [no_message]))) = []
   \<and> map_option fst (drain sim_env USER_ACCESS 1699999925000 1699999940000 (File ''eaa.log'')
        JNull (sim_state [no_message])) = Some False"
proof -
  have h1: "post sim_env (get_api_url USER_ACCESS) (drpc_args 1699999925000 1699999940000 JNull)
       (world (sim_state [no_message]))
     = (Reply 200 (Some (JObj [(''error'', JStr ''no data'')])), (sim_world [])\<lparr>sim_time := 1700000001\<rparr>)"
    by (simp add: sim_env_def sim_post_def sim_state_def sim_world_def init_def no_message_def)
  have h2: "''message'' \<notin> fst ` set [(''error'', JStr ''no data'')]"
    by simp
  have io: "io_ok sim_env n" for n
    by (simp add: sim_env_def)
  show ?thesis
    using missing_message [OF h1 h2, of "File ''eaa.log''"] h1
    by (simp add: sim_state_def init_def io)
qed

lemma content_append_bytes [simp]: "content out (append_bytes out bs st) = content out st @ bs"
  by (cases out) simp_all

lemma isdigit_metadata: "\<not> isdigit ''metadata''"
  by (simp add: isdigit_def ascii_digit_def)

lemma isdigit_line_A: "isdigit ''1700000000000''"
  by (simp add: isdigit_def ascii_digit_def)

lemma py_int_line_A: "py_int ''1700000000000'' = Some 1700000000000"
  by (simp add: py_int_def ascii_digit_def)

lemma sim_utc_date: "fromtimestamp (utcoff sim_env) 1700000000 = Some \<lparr>year = 2023, month = 11, day = 14\<rparr>"
  by code_simp

lemma iso_2023_11_14: "isoformat \<lparr>year = 2023, month = 11, day = 14\<rparr> = ''2023-11-14''"
  by code_simp

lemma sim_io_ok: "io_ok sim_env n"
  by (simp add: sim_env_def)


text \<open>
  C3, as stated, fails: when the top-level message is itself the mapping with the keys
  \<^verbatim>\<open>metadata\<close> and \<^verbatim>\<open>1700000000000\<close>, the subscript \<^verbatim>\<open>[0]\<close> raises, the outer
  handler catches the exception, and no line is written.
\<close>

theorem mapping_message_counterexample:
  "fst (get_logs sim_env (drpc_args 1699999925000 1699999940000 JNull) USER_ACCESS
       (File ''eaa.log'') (sim_state [mapping_reply])) = JNull
   \<and> calls (snd (get_logs sim_env (drpc_args 1699999925000 1699999940000 JNull) USER_ACCESS
       (File ''eaa.log'') (sim_state [mapping_reply]))) = []
   \<and> line_count (snd (get_logs sim_env (drpc_args 1699999925000 1699999940000 JNull)
       USER_ACCESS (File ''eaa.log'') (sim_state [mapping_reply]))) = 0"
  by code_simp

text \<open>
  C3, amended.  When the top-level message is a sequence whose first element is a
  sequence whose second element is the mapping with the keys \<^verbatim>\<open>metadata\<close> and
  \<^verbatim>\<open>1700000000000\<close>, the latter holding \<^verbatim>\<open>{"flog": "line-A"}\<close>, and the write
  succeeds, exactly one line is written: the ISO form of the local date at 1700000000
  seconds, a space, \<^verbatim>\<open>line-A\<close> and a newline.  The key that is not numeric is skipped
  and the error counter keeps its value.
\<close>

theorem access_line_A:
  assumes "post env (get_api_url USER_ACCESS) args (world st) = (Reply 200 (Some (JObj bd)), w)"
    and "map_of bd ''message'' = Some (JArr [JArr [x, JObj [(''metadata'', md),
           (''1700000000000'', JObj [(''flog'', JStr ''line-A'')])]]])"
    and "fromtimestamp (utcoff env) 1700000000 = Some d"
    and "io_ok env (length (calls st))"
    and "st' = snd (get_logs env args USER_ACCESS out st)"
  shows "calls st' = calls st @ [Write (isoformat d @ '' line-A'' @ newline)]
         \<and> content out st' = content out st @ utf8 (isoformat d @ '' line-A'' @ newline)
         \<and> line_count st' = line_count st + 1
         \<and> error_count st' = error_count st"
proof -
  let ?st1 = "st\<lparr>requests := requests st @ [(get_api_url USER_ACCESS, args)], world := w\<rparr>"
  let ?line = "isoformat d @ '' line-A'' @ newline"
  have key: "''message'' \<in> fst ` set bd"
    using assms(2) by (rule map_of_key)
  have g: "get_logs env args USER_ACCESS out st = access_page env out (JObj bd) ?st1"
    using assms(1) key by (simp add: get_logs_def Let_def)
  have r1: "access_record env out (''metadata'', md) ?st1 = ?st1"
    by (simp add: access_record_def isdigit_metadata)
  have r2: "access_record env out (''1700000000000'', JObj [(''flog'', JStr ''line-A'')]) ?st1
            = (append_bytes out (utf8 ?line) (?st1\<lparr>calls := calls st @ [Write ?line]\<rparr>))
                \<lparr>line_count := line_count st + 1\<rparr>"
    using assms(3,4)
    by (cases out) (simp_all add: access_record_def isdigit_line_A py_int_line_A write_def Let_def)
  have p: "st' = (append_bytes out (utf8 ?line) (?st1\<lparr>calls := calls st @ [Write ?line]\<rparr>))
                \<lparr>line_count := line_count st + 1\<rparr>"
    using assms(2,5) by (simp add: g access_page_def r1 r2)
  show ?thesis
    by (cases out) (simp_all add: p)
qed


theorem access_line_A_witness:
  "calls (snd (get_logs sim_env (drpc_args 1699999925000 1699999940000 JNull) USER_ACCESS
       (File ''eaa.log'') (sim_state [line_A_reply])))
     = [Write (''2023-11-14 line-A'' @ newline)]
   \<and> line_count (snd (get_logs sim_env (drpc_args 1699999925000 1699999940000 JNull) USER_ACCESS
       (File ''eaa.log'') (sim_state [line_A_reply]))) = 1
   \<and> error_count (snd (get_logs sim_env (drpc_args 1699999925000 1699999940000 JNull)
       USER_ACCESS (File ''eaa.log'') (sim_state [line_A_reply]))) = 0"
proof -
  have h1: "post sim_env (get_api_url USER_ACCESS) (drpc_args 1699999925000 1699999940000 JNull)
       (world (sim_state [line_A_reply]))
     = (Reply 200 (Some (JObj [(''message'', JArr [JArr [JInt 0,
          JObj [(''metadata'', JObj []),
                (''1700000000000'', JObj [(''flog'', JStr ''line-A'')])]]])])),
        (sim_world [])\<lparr>sim_time := 1700000001\<rparr>)"
    by (simp add: sim_env_def sim_post_def sim_state_def sim_world_def init_def line_A_reply_def)
  have h2: "map_of [(''message'', JArr [JArr [JInt 0,
          JObj [(''metadata'', JObj []),
                (''1700000000000'', JObj [(''flog'', JStr ''line-A'')])]]])] ''message''
     = Some (JArr [JArr [JInt 0, JObj [(''metadata'', JObj []),
           (''1700000000000'', JObj [(''flog'', JStr ''line-A'')])]]])"
    by simp
  have h4: "io_ok sim_env (length (calls (sim_state [line_A_reply])))"
    by (rule sim_io_ok)
  show ?thesis
    using access_line_A [OF h1 h2 sim_utc_date h4 refl, of "File ''eaa.log''"]
    by (simp add: iso_2023_11_14 sim_state_def init_def)
qed

subsection \<open>Records\<close>

text \<open>
  C1, as stated, fails: on an access page whose second record has no \<^verbatim>\<open>flog\<close>, the
  record is skipped and the two others are written, but the error counter keeps its
  value.
\<close>

theorem record_failure_counterexample:
  "error_count (snd (get_logs sim_env (drpc_args 1699999925000 1699999940000 JNull) USER_ACCESS
       (File ''eaa.log'') (sim_state [access_reply JNull])))
     = error_count (sim_state [access_reply JNull])
   \<and> error_count (snd (get_logs sim_env (drpc_args 1699999925000 1699999940000 JNull)
       USER_ACCESS (File ''eaa.log'') (sim_state [access_reply JNull])))
     \<noteq> error_count (sim_state [access_reply JNull]) + 1
   \<and> line_count (snd (get_logs sim_env (drpc_args 1699999925000 1699999940000 JNull)
       USER_ACCESS (File ''eaa.log'') (sim_state [access_reply JNull]))) = 2"
  by code_simp

text \<open>
  C1, amended.  On a page of either category, a record that fails to parse is skipped and
  the records after it are processed as if it were absent, and the error counter keeps
  its value.  The failures are: for an access record, a key that is not numeric, a key
  that \<^verbatim>\<open>int\<close> rejects, a value without the field \<^verbatim>\<open>flog\<close> (or that is not a
  mapping), a date out of range, a \<^verbatim>\<open>flog\<close> that is not a string; for an admin
  record that is a mapping, a \<^verbatim>\<open>ts\<close> that is missing or not a number, or a date out of
  range.  (An admin record without \<^verbatim>\<open>splunk_line\<close> is no failure: its line ends in
  \<^verbatim>\<open>None\<close>.)
\<close>

theorem record_failure_is_skipped:
  assumes "post env (get_api_url lt) args (world st) = (Reply 200 (Some (JObj bd)), w)"
    and "map_of bd ''message'' = Some message"
    and "st1 = st\<lparr>requests := requests st @ [(get_api_url lt, args)], world := w\<rparr>"
  shows
    "(lt = USER_ACCESS \<and> message = JArr [JArr [x, JObj (rs1 @ (k, v) # rs2)]]
        \<and> (\<not> isdigit k \<or> py_int k = None \<or> py_getitem v ''flog'' = None
           \<or> (\<exists>n. py_int k = Some n \<and> fromtimestamp (utcoff env) (n div 1000) = None)
           \<or> (\<exists>j. py_getitem v ''flog'' = Some j \<and> (\<forall>f. j \<noteq> JStr f)))
      \<longrightarrow> snd (get_logs env args lt out st)
            = fold (access_record env out) rs2 (fold (access_record env out) rs1 st1)
          \<and> error_count (snd (get_logs env args lt out st)) = error_count st)
     \<and> (lt = ADMIN \<and> py_get message ''metadata'' = Some (JObj md)
          \<and> py_get message ''data'' = Some (JArr (is1 @ JObj kv # is2))
          \<and> list_all is_dict is1
          \<and> (ts_seconds (case map_of kv ''ts'' of None \<Rightarrow> JNull | Some t \<Rightarrow> t) = None
             \<or> (\<exists>n. ts_seconds (case map_of kv ''ts'' of None \<Rightarrow> JNull | Some t \<Rightarrow> t) = Some n
                   \<and> fromtimestamp (utcoff env) n = None))
      \<longrightarrow> snd (get_logs env args lt out st)
            = snd (admin_records env out is2 (snd (admin_records env out is1 st1)))
          \<and> error_count (snd (get_logs env args lt out st)) = error_count st)"
proof (intro conjI impI)
  have key: "''message'' \<in> fst ` set bd"
    using assms(2) by (rule map_of_key)
  {
    assume h: "lt = USER_ACCESS \<and> message = JArr [JArr [x, JObj (rs1 @ (k, v) # rs2)]]
        \<and> (\<not> isdigit k \<or> py_int k = None \<or> py_getitem v ''flog'' = None
           \<or> (\<exists>n. py_int k = Some n \<and> fromtimestamp (utcoff env) (n div 1000) = None)
           \<or> (\<exists>j. py_getitem v ''flog'' = Some j \<and> (\<forall>f. j \<noteq> JStr f)))"
    then have skip: "\<And>s. access_record env out (k, v) s = s"
      using access_record_skipped [of k v env out] by blast
    have g: "get_logs env args USER_ACCESS out st = access_page env out (JObj bd) st1"
      using assms key h by (simp add: get_logs_def Let_def)
    show "snd (get_logs env args lt out st)
            = fold (access_record env out) rs2 (fold (access_record env out) rs1 st1)"
      using h assms(2) by (simp add: g access_page_def skip)
    show "error_count (snd (get_logs env args lt out st)) = error_count st"
      using h assms(2,3) by (simp add: g access_page_def skip)
  }
  {
    assume h: "lt = ADMIN \<and> py_get message ''metadata'' = Some (JObj md)
          \<and> py_get message ''data'' = Some (JArr (is1 @ JObj kv # is2))
          \<and> list_all is_dict is1
          \<and> (ts_seconds (case map_of kv ''ts'' of None \<Rightarrow> JNull | Some t \<Rightarrow> t) = None
             \<or> (\<exists>n. ts_seconds (case map_of kv ''ts'' of None \<Rightarrow> JNull | Some t \<Rightarrow> t) = Some n
                   \<and> fromtimestamp (utcoff env) n = None))"
    then have skip: "\<And>s. admin_record env out (JObj kv) s = (False, s)"
      using admin_record_skipped [of kv env out] by blast
    have g: "get_logs env args lt out st = admin_page env out (JObj bd) st1"
      using assms key h by (simp add: get_logs_def Let_def)
    have m: "py_get message ''metadata'' = Some (JObj md)"
      "py_get message ''data'' = Some (JArr (is1 @ JObj kv # is2))"
      using h by simp_all
    have nr: "\<not> fst (admin_records env out is1 st1)"
      using h admin_records_dicts by blast
    have a: "admin_records env out (is1 @ JObj kv # is2) st1
             = admin_records env out is2 (snd (admin_records env out is1 st1))"
      by (simp add: admin_records_append [OF nr] skip)
    have p: "snd (admin_page env out (JObj bd) st1)
             = snd (admin_records env out is2 (snd (admin_records env out is1 st1)))"
      using assms(2) by (simp add: admin_page_def a m split: option.splits)
    show "snd (get_logs env args lt out st)
            = snd (admin_records env out is2 (snd (admin_records env out is1 st1)))"
      by (simp add: g p)
    have e: "error_count st1 = error_count st"
      using assms(3) by simp
    show "error_count (snd (get_logs env args lt out st)) = error_count st"
      by (simp add: g p e)
  }
qed

theorem record_failure_is_skipped_witness:
  "snd (get_logs sim_env (drpc_args 1699999925000 1699999940000 JNull) USER_ACCESS
        (File ''eaa.log'') (sim_state [access_reply JNull]))
     = fold (access_record sim_env (File ''eaa.log''))
         [(''1700086400000'', JObj [(''flog'', JStr ''line-C'')])]
         (fold (access_record sim_env (File ''eaa.log''))
            [(''scroll_id'', JNull), (''1700000000000'', JObj [(''flog'', JStr ''line-A'')])]
            ((sim_state [access_reply JNull])
               \<lparr>requests := [(get_api_url USER_ACCESS, drpc_args 1699999925000 1699999940000 JNull)],
                world := (sim_world [])\<lparr>sim_time := 1700000001\<rparr>\<rparr>))
   \<and> error_count (snd (get_logs sim_env (drpc_args 1699999925000 1699999940000 JNull)
        USER_ACCESS (File ''eaa.log'') (sim_state [access_reply JNull]))) = 0
   \<and> snd (get_logs sim_env (drpc_args 1699999925000 1699999940000 JNull) ADMIN
        (File ''eaa.log'')
        (sim_state [admin_reply JNull [JObj [(''splunk_line'', JStr ''line-X'')],
                                       JObj [(''ts'', JInt 1700000000000), (''splunk_line'', JStr ''line-B'')]]]))
     = snd (admin_records sim_env (File ''eaa.log'')
         [JObj [(''ts'', JInt 1700000000000), (''splunk_line'', JStr ''line-B'')]]
         (snd (admin_records sim_env (File ''eaa.log'') []
            ((sim_state [admin_reply JNull [JObj [(''splunk_line'', JStr ''line-X'')],
                                       JObj [(''ts'', JInt 1700000000000), (''splunk_line'', JStr ''line-B'')]]])
               \<lparr>requests := [(get_api_url ADMIN, drpc_args 1699999925000 1699999940000 JNull)],
                world := (sim_world [])\<lparr>sim_time := 1700000001\<rparr>\<rparr>))))"
proof -
  let ?a = "drpc_args 1699999925000 1699999940000 JNull"
  let ?w = "(sim_world [])\<lparr>sim_time := 1700000001\<rparr>"
  let ?items = "[JObj [(''splunk_line'', JStr ''line-X'')],
                 JObj [(''ts'', JInt 1700000000000), (''splunk_line'', JStr ''line-B'')]]"
  have h1: "post sim_env (get_api_url USER_ACCESS) ?a (world (sim_state [access_reply JNull]))
     = (Reply 200 (Some (JObj [(''message'', JArr [JArr [JInt 0,
          JObj [(''scroll_id'', JNull),
           (''1700000000000'', JObj [(''flog'', JStr ''line-A'')]),
           (''1700000060000'', JObj [(''user'', JStr ''nobody'')]),
           (''1700086400000'', JObj [(''flog'', JStr ''line-C'')])]]])])), ?w)"
    by (simp add: sim_env_def sim_post_def sim_state_def sim_world_def init_def access_reply_def)
  have h2: "map_of [(''message'', JArr [JArr [JInt 0,
          JObj [(''scroll_id'', JNull),
           (''1700000000000'', JObj [(''flog'', JStr ''line-A'')]),
           (''1700000060000'', JObj [(''user'', JStr ''nobody'')]),
           (''1700086400000'', JObj [(''flog'', JStr ''line-C'')])]]])] ''message''
     = Some (JArr [JArr [JInt 0,
          JObj [(''scroll_id'', JNull),
           (''1700000000000'', JObj [(''flog'', JStr ''line-A'')]),
           (''1700000060000'', JObj [(''user'', JStr ''nobody'')]),
           (''1700086400000'', JObj [(''flog'', JStr ''line-C'')])]]])"
    by simp
  have k1: "post sim_env (get_api_url ADMIN) ?a (world (sim_state [admin_reply JNull ?items]))
     = (Reply 200 (Some (JObj [(''message'',
          JObj [(''metadata'', JObj [(''scroll_id'', JNull)]), (''data'', JArr ?items)])])), ?w)"
    by (simp add: sim_env_def sim_post_def sim_state_def sim_world_def init_def admin_reply_def)
  have k2: "map_of [(''message'',
          JObj [(''metadata'', JObj [(''scroll_id'', JNull)]), (''data'', JArr ?items)])] ''message''
     = Some (JObj [(''metadata'', JObj [(''scroll_id'', JNull)]), (''data'', JArr ?items)])"
    by simp
  show ?thesis
    using record_failure_is_skipped [OF h1 h2 refl,
        where x = "JInt 0"
          and ?rs1.0 = "[(''scroll_id'', JNull), (''1700000000000'', JObj [(''flog'', JStr ''line-A'')])]"
          and k = "''1700000060000''" and v = "JObj [(''user'', JStr ''nobody'')]"
          and ?rs2.0 = "[(''1700086400000'', JObj [(''flog'', JStr ''line-C'')])]"
          and out = "File ''eaa.log''"]
      record_failure_is_skipped [OF k1 k2 refl,
        where md = "[(''scroll_id'', JNull)]" and ?is1.0 = "[]"
          and kv = "[(''splunk_line'', JStr ''line-X'')]"
          and ?is2.0 = "[JObj [(''ts'', JInt 1700000000000), (''splunk_line'', JStr ''line-B'')]]"
          and out = "File ''eaa.log''"]
    by (simp add: sim_state_def init_def)
qed

subsection \<open>The requests posted\<close>

lemma write_requests [simp]: "requests (snd (write env out l st)) = requests st"
  by (cases out) (simp_all add: write_def Let_def)

lemma access_record_requests [simp]:
  "requests (access_record env out tr st) = requests st"
proof -
  have w: "\<And>l b st1. write env out l st = (b, st1) \<Longrightarrow> requests st1 = requests st"
    by (metis snd_conv write_requests)
  show ?thesis
    by (auto simp: access_record_def dest: w split: prod.splits option.splits json.splits bool.splits)
qed

lemma fold_access_record_requests [simp]:
  "requests (fold (access_record env out) rs st) = requests st"
  by (induction rs arbitrary: st) simp_all

lemma admin_record_requests [simp]:
  "requests (snd (admin_record env out item st)) = requests st"
proof -
  have w: "\<And>l b st1. write env out l st = (b, st1) \<Longrightarrow> requests st1 = requests st"
    by (metis snd_conv write_requests)
  show ?thesis
    by (auto simp: admin_record_def dest: w split: prod.splits option.splits bool.splits)
qed

lemma admin_records_requests [simp]:
  "requests (snd (admin_records env out items st)) = requests st"
proof (induction items arbitrary: st)
  case Nil
  show ?case by simp
next
  case (Cons item items)
  show ?case
  proof (cases "admin_record env out item st")
    case (Pair raised st1)
    have "requests st1 = requests st"
      using admin_record_requests [of env out item st] Pair by simp
    then show ?thesis
      using Pair Cons.IH [of st1] by (cases raised) simp_all
  qed
qed

lemma access_page_requests [simp]:
  "requests (snd (access_page env out resj st)) = requests st"
  by (simp add: access_page_def split: option.splits json.splits)

lemma admin_page_requests [simp]:
  "requests (snd (admin_page env out resj st)) = requests st"
  by (simp add: admin_page_def split: option.splits)

lemma get_logs_requests:
  "requests (snd (get_logs env a lt out st)) = requests st @ [(get_api_url lt, a)]"
  by (simp add: get_logs_def Let_def
      split: prod.splits reply.splits option.splits bool.splits EventType.splits)

lemma drain_requests:
  assumes "drain env lt sts ets out c st = Some y"
  shows "\<exists>rq. requests (snd y) = requests st @ (get_api_url lt, drpc_args sts ets c) # rq"
proof (rule drain.raw_induct [where P = "\<lambda>env lt sts ets out c st y.
      \<exists>rq. requests (snd y) = requests st @ (get_api_url lt, drpc_args sts ets c) # rq", OF _ assms])
  fix f :: "'a env \<Rightarrow> EventType \<Rightarrow> int \<Rightarrow> int \<Rightarrow> out \<Rightarrow> json \<Rightarrow> 'a state \<Rightarrow> (bool \<times> 'a state) option"
    and env lt sts ets out c st y
  assume IH: "\<And>env lt sts ets out c st y. f env lt sts ets out c st = Some y \<Longrightarrow>
      \<exists>rq. requests (snd y) = requests st @ (get_api_url lt, drpc_args sts ets c) # rq"
    and body: "(case get_logs env (drpc_args sts ets c) lt out st of
        (c', st1) \<Rightarrow>
          (case flush env st1 of
             (fl, st2) \<Rightarrow>
               if \<not> fl then Some (True, st2)
               else if c' = JNull then Some (False, st2)
               else f env lt sts ets out c' st2)) = Some y"
  obtain c' st1 where g: "get_logs env (drpc_args sts ets c) lt out st = (c', st1)"
    by (cases "get_logs env (drpc_args sts ets c) lt out st")
  have r1: "requests st1 = requests st @ [(get_api_url lt, drpc_args sts ets c)]"
    using get_logs_requests [of env "drpc_args sts ets c" lt out st] g by simp
  let ?st2 = "st1\<lparr>calls := calls st1 @ [Flush]\<rparr>"
  show "\<exists>rq. requests (snd y) = requests st @ (get_api_url lt, drpc_args sts ets c) # rq"
  proof (cases "io_ok env (length (calls st1)) \<and> c' \<noteq> JNull")
    case True
    then have "f env lt sts ets out c' ?st2 = Some y"
      using body g by (simp add: flush_def)
    then obtain rq where "requests (snd y) = requests ?st2 @ (get_api_url lt, drpc_args sts ets c') # rq"
      using IH by blast
    then show ?thesis
      using r1 by simp
  next
    case False
    then have "snd y = ?st2"
      using body g by (auto simp: flush_def split: if_splits)
    then show ?thesis
      using r1 by simp
  qed
qed


subsection \<open>The cursor of a page whose records raise\<close>




subsection \<open>The pagination of one window\<close>

lemma drain_pass:
  "drain env lt sts ets out c st =
     (case pass env lt sts ets out c st of
        (fl, c', st') \<Rightarrow>
          if \<not> fl then Some (True, st')
          else if c' = JNull then Some (False, st')
          else drain env lt sts ets out c' st')"
  by (subst drain.simps) (simp add: pass_def split: prod.splits)

lemma drain_last_pass:
  "last_pass (passes env lt sts ets out n c st) \<Longrightarrow>
   (\<forall>k<n. \<not> last_pass (passes env lt sts ets out k c st)) \<Longrightarrow>
   drain env lt sts ets out c st
     = Some (\<not> fst (passes env lt sts ets out n c st), snd (snd (passes env lt sts ets out n c st)))"
proof (induction n arbitrary: c st)
  case 0
  then show ?case
    by (subst drain_pass) (auto simp: last_pass_def split: prod.splits)
next
  case (Suc n)
  obtain fl c' st' where p: "pass env lt sts ets out c st = (fl, c', st')"
    by (cases "pass env lt sts ets out c st")
  have "\<not> last_pass (passes env lt sts ets out 0 c st)"
    using Suc.prems(2) by blast
  then have go: "fl \<and> c' \<noteq> JNull"
    using p by (simp add: last_pass_def)
  have l: "last_pass (passes env lt sts ets out n c' st')"
    using Suc.prems(1) p by simp
  have nl: "\<forall>k<n. \<not> last_pass (passes env lt sts ets out k c' st')"
  proof (intro allI impI)
    fix k
    assume "k < n"
    then have "Suc k < Suc n"
      by simp
    then have "\<not> last_pass (passes env lt sts ets out (Suc k) c st)"
      using Suc.prems(2) by blast
    then show "\<not> last_pass (passes env lt sts ets out k c' st')"
      using p by simp
  qed
  have "drain env lt sts ets out c st = drain env lt sts ets out c' st'"
    using go p by (subst drain_pass) simp
  then show ?case
    using Suc.IH [OF l nl] p by simp
qed

lemma drain_returns_last_pass:
  assumes "drain env lt sts ets out c st = Some y"
  shows "\<exists>n. last_pass (passes env lt sts ets out n c st)"
proof (rule drain.raw_induct [where P = "\<lambda>env lt sts ets out c st y.
      \<exists>n. last_pass (passes env lt sts ets out n c st)", OF _ assms])
  fix f :: "'a env \<Rightarrow> EventType \<Rightarrow> int \<Rightarrow> int \<Rightarrow> out \<Rightarrow> json \<Rightarrow> 'a state \<Rightarrow> (bool \<times> 'a state) option"
    and env lt sts ets out c st y
  assume IH: "\<And>env lt sts ets out c st y. f env lt sts ets out c st = Some y \<Longrightarrow>
      \<exists>n. last_pass (passes env lt sts ets out n c st)"
    and body: "(case get_logs env (drpc_args sts ets c) lt out st of
        (c', st1) \<Rightarrow>
          (case flush env st1 of
             (fl, st2) \<Rightarrow>
               if \<not> fl then Some (True, st2)
               else if c' = JNull then Some (False, st2)
               else f env lt sts ets out c' st2)) = Some y"
  obtain fl c' st' where p: "pass env lt sts ets out c st = (fl, c', st')"
    by (cases "pass env lt sts ets out c st")
  show "\<exists>n. last_pass (passes env lt sts ets out n c st)"
  proof (cases "fl \<and> c' \<noteq> JNull")
    case True
    then have "f env lt sts ets out c' st' = Some y"
      using body p by (auto simp: pass_def split: prod.splits)
    then obtain n where "last_pass (passes env lt sts ets out n c' st')"
      using IH by blast
    then have "last_pass (passes env lt sts ets out (Suc n) c st)"
      using p by simp
    then show ?thesis ..
  next
    case False
    then have "last_pass (passes env lt sts ets out 0 c st)"
      using p by (auto simp: last_pass_def)
    then show ?thesis ..
  qed
qed

lemma pass_requests:
  "requests (snd (snd (pass env lt sts ets out c st)))
     = requests st @ [(get_api_url lt, drpc_args sts ets c)]"
proof -
  obtain c' st1 where g: "get_logs env (drpc_args sts ets c) lt out st = (c', st1)"
    by (cases "get_logs env (drpc_args sts ets c) lt out st")
  then have "requests st1 = requests st @ [(get_api_url lt, drpc_args sts ets c)]"
    using get_logs_requests [of env "drpc_args sts ets c" lt out st] by simp
  then show ?thesis
    by (simp add: pass_def flush_def g)
qed

lemma passes_requests:
  "requests (snd (snd (passes env lt sts ets out n c st)))
     = requests st @ map (\<lambda>k. (get_api_url lt, drpc_args sts ets
         (if k = 0 then c else fst (snd (passes env lt sts ets out (k - 1) c st))))) [0..<Suc n]"
proof (induction n arbitrary: c st)
  case 0
  show ?case
    using pass_requests [of env lt sts ets out c st] by simp
next
  case (Suc n)
  obtain fl c' st' where p: "pass env lt sts ets out c st = (fl, c', st')"
    by (cases "pass env lt sts ets out c st")
  have r: "requests st' = requests st @ [(get_api_url lt, drpc_args sts ets c)]"
    using pass_requests [of env lt sts ets out c st] p by simp
  let ?sent = "\<lambda>k. if k = 0 then c else fst (snd (passes env lt sts ets out (k - 1) c st))"
  let ?sent' = "\<lambda>k. if k = 0 then c' else fst (snd (passes env lt sts ets out (k - 1) c' st'))"
  have shift: "?sent (Suc k) = ?sent' k" for k
    using p by (cases k) simp_all
  define G where "G = (\<lambda>k. (get_api_url lt, drpc_args sts ets (?sent k)))"
  define G' where "G' = (\<lambda>k. (get_api_url lt, drpc_args sts ets (?sent' k)))"
  have g0: "G 0 = (get_api_url lt, drpc_args sts ets c)"
    by (simp add: G_def)
  have gs: "G (Suc k) = G' k" for k
    unfolding G_def G'_def using shift [of k] by (simp only:)
  have "map G [0..<Suc (Suc n)] = G 0 # map (\<lambda>k. G (Suc k)) [0..<Suc n]"
    by (rule map_upt_Suc)
  then have m: "map G [0..<Suc (Suc n)] = (get_api_url lt, drpc_args sts ets c) # map G' [0..<Suc n]"
    by (simp only: g0 gs)
  have "requests (snd (snd (passes env lt sts ets out (Suc n) c st)))
          = requests st' @ map G' [0..<Suc n]"
    using Suc.IH [of c' st'] p by (simp only: passes.simps prod.case G'_def)
  then have "requests (snd (snd (passes env lt sts ets out (Suc n) c st)))
          = requests st @ map G [0..<Suc (Suc n)]"
    by (simp only: m r append_Cons append_Nil append_assoc)
  then show ?case
    by (simp only: G_def)
qed

lemma last_pass_iff: "last_pass r \<longleftrightarrow> \<not> fst r \<or> fst (snd r) = JNull"
  by (cases r) (simp add: last_pass_def)

lemma no_cursor_raised:
  "fst (post env (get_api_url lt) a (world s)) = Raised \<Longrightarrow> fst (get_logs env a lt out s) = JNull"
  by (cases "post env (get_api_url lt) a (world s)") (simp add: get_logs_def Let_def)

lemma no_cursor_status:
  "fst (post env (get_api_url lt) a (world s)) = Reply code b \<Longrightarrow> code \<noteq> 200 \<Longrightarrow>
   fst (get_logs env a lt out s) = JNull"
  by (cases "post env (get_api_url lt) a (world s)") (simp add: get_logs_def Let_def)

lemma no_cursor_message:
  "fst (post env (get_api_url lt) a (world s)) = Reply 200 (Some (JObj bd)) \<Longrightarrow>
   map_of bd ''message'' = None \<Longrightarrow>
   fst (get_logs env a lt out s) = JNull"
  by (cases "post env (get_api_url lt) a (world s)")
    (simp add: get_logs_def Let_def map_of_eq_None_iff)

lemma no_cursor_access:
  assumes "fst (post env (get_api_url USER_ACCESS) a (world s)) = Reply 200 (Some (JObj bd))"
    and "map_of bd ''message'' = Some (JArr [JArr [x, JObj m]])"
    and "map_of m ''scroll_id'' = None"
  shows "fst (get_logs env a USER_ACCESS out s) = JNull"
proof -
  have "''message'' \<in> fst ` set bd"
    using assms(2) by (rule map_of_key)
  then show ?thesis
    using assms by (cases "post env (get_api_url USER_ACCESS) a (world s)")
      (simp add: get_logs_def Let_def access_page_def)
qed

lemma no_cursor_admin:
  assumes "fst (post env (get_api_url ADMIN) a (world s)) = Reply 200 (Some (JObj bd))"
    and "map_of bd ''message'' = Some (JObj m)"
    and "map_of m ''metadata'' = Some (JObj md)"
    and "map_of md ''scroll_id'' = None"
  shows "fst (get_logs env a ADMIN out s) = JNull"
proof -
  have "''message'' \<in> fst ` set bd"
    using assms(2) by (rule map_of_key)
  moreover have "''scroll_id'' \<notin> fst ` set md"
    using assms(4) by (simp add: map_of_eq_None_iff)
  ultimately show ?thesis
    using assms by (cases "post env (get_api_url ADMIN) a (world s)")
      (simp add: get_logs_def Let_def admin_page_def split: option.splits)
qed

lemma drain_none_iff:
  "drain env lt sts ets out c st = None
     \<longleftrightarrow> (\<forall>n. \<not> last_pass (passes env lt sts ets out n c st))"
proof
  assume d: "drain env lt sts ets out c st = None"
  show "\<forall>n. \<not> last_pass (passes env lt sts ets out n c st)"
  proof (rule ccontr)
    assume "\<not> (\<forall>n. \<not> last_pass (passes env lt sts ets out n c st))"
    then obtain m where m: "last_pass (passes env lt sts ets out m c st)"
      by blast
    define n where "n = (LEAST n. last_pass (passes env lt sts ets out n c st))"
    have l: "last_pass (passes env lt sts ets out n c st)"
      unfolding n_def using m by (rule LeastI)
    have "\<forall>k<n. \<not> last_pass (passes env lt sts ets out k c st)"
      unfolding n_def using not_less_Least by blast
    then show False
      using drain_last_pass [OF l] d by simp
  qed
next
  assume "\<forall>n. \<not> last_pass (passes env lt sts ets out n c st)"
  then show "drain env lt sts ets out c st = None"
    using drain_returns_last_pass [of env lt sts ets out c st] by (cases "drain env lt sts ets out c st") auto
qed

lemma drpc_args_cursor:
  "(\<forall>v. (''scroll_id'', v) \<notin> set (drpc_args sts ets JNull))
   \<and> (c \<noteq> JNull \<longrightarrow> drpc_args sts ets c = drpc_args sts ets JNull @ [(''scroll_id'', py_str c)])"
  by (simp add: drpc_args_def)

text \<open>
  C2, as stated, fails: the loop also stops when \<^verbatim>\<open>out.flush()\<close> raises after a page,
  whatever cursor the page returned.  Here the first page returns the cursor \<^verbatim>\<open>c1\<close>,
  its flush fails, and the loop is left by the exception after that one request.
\<close>

theorem flush_failure_counterexample:
  "fst (get_logs flush_fails (drpc_args 1699999925000 1699999940000 JNull) USER_ACCESS
       (File ''eaa.log'') three_pages) = JStr ''c1''
   \<and> drain flush_fails USER_ACCESS 1699999925000 1699999940000 (File ''eaa.log'') JNull three_pages
       \<noteq> None
   \<and> fst (the (drain flush_fails USER_ACCESS 1699999925000 1699999940000 (File ''eaa.log'') JNull
       three_pages))
   \<and> requests (snd (the (drain flush_fails USER_ACCESS 1699999925000 1699999940000
       (File ''eaa.log'') JNull three_pages)))
     = [(ACCESSLOG_API, drpc_args 1699999925000 1699999940000 JNull)]"
  by code_simp

text \<open>
  C2, amended.  The pagination loop of one window starts with a request that carries no
  cursor and gives each later request the cursor that the pass before returned, as
  \<^verbatim>\<open>scroll_id\<close>.  It stops at the first pass that returns no cursor or whose flush
  raises, having posted one request per pass, and it never stops when there is no such
  pass.  A request yields no cursor when the transport raises, when the status is not 200,
  when the body is an object without \<^verbatim>\<open>message\<close>, and when the message holds no
  \<^verbatim>\<open>scroll_id\<close>.
\<close>

theorem pagination_follows_cursors:
  "(last_pass (passes env lt sts ets out n JNull st)
      \<and> (\<forall>k<n. \<not> last_pass (passes env lt sts ets out k JNull st))
     \<longrightarrow> drain env lt sts ets out JNull st
           = Some (\<not> fst (passes env lt sts ets out n JNull st),
                   snd (snd (passes env lt sts ets out n JNull st)))
         \<and> requests (snd (snd (passes env lt sts ets out n JNull st)))
           = requests st @ map (\<lambda>k. (get_api_url lt, drpc_args sts ets
               (if k = 0 then JNull
                else fst (snd (passes env lt sts ets out (k - 1) JNull st))))) [0..<Suc n])
   \<and> (drain env lt sts ets out JNull st = None
        \<longleftrightarrow> (\<forall>n. \<not> last_pass (passes env lt sts ets out n JNull st)))
   \<and> (\<forall>v. (''scroll_id'', v) \<notin> set (drpc_args sts ets JNull))
   \<and> (c \<noteq> JNull \<longrightarrow> drpc_args sts ets c = drpc_args sts ets JNull @ [(''scroll_id'', py_str c)])
   \<and> (fst (post env (get_api_url lt) a (world s)) = Raised
        \<longrightarrow> fst (get_logs env a lt out s) = JNull)
   \<and> (fst (post env (get_api_url lt) a (world s)) = Reply code b \<and> code \<noteq> 200
        \<longrightarrow> fst (get_logs env a lt out s) = JNull)
   \<and> (fst (post env (get_api_url lt) a (world s)) = Reply 200 (Some (JObj bd))
        \<and> map_of bd ''message'' = None
        \<longrightarrow> fst (get_logs env a lt out s) = JNull)
   \<and> (fst (post env (get_api_url USER_ACCESS) a (world s)) = Reply 200 (Some (JObj bd))
        \<and> map_of bd ''message'' = Some (JArr [JArr [x, JObj m]])
        \<and> map_of m ''scroll_id'' = None
        \<longrightarrow> fst (get_logs env a USER_ACCESS out s) = JNull)
   \<and> (fst (post env (get_api_url ADMIN) a (world s)) = Reply 200 (Some (JObj bd))
        \<and> map_of bd ''message'' = Some (JObj m)
        \<and> map_of m ''metadata'' = Some (JObj md)
        \<and> map_of md ''scroll_id'' = None
        \<longrightarrow> fst (get_logs env a ADMIN out s) = JNull)"
proof -
  have 1: "last_pass (passes env lt sts ets out n JNull st)
      \<and> (\<forall>k<n. \<not> last_pass (passes env lt sts ets out k JNull st))
     \<longrightarrow> drain env lt sts ets out JNull st
           = Some (\<not> fst (passes env lt sts ets out n JNull st),
                   snd (snd (passes env lt sts ets out n JNull st)))
         \<and> requests (snd (snd (passes env lt sts ets out n JNull st)))
           = requests st @ map (\<lambda>k. (get_api_url lt, drpc_args sts ets
               (if k = 0 then JNull
                else fst (snd (passes env lt sts ets out (k - 1) JNull st))))) [0..<Suc n]"
    using drain_last_pass [of env lt sts ets out n JNull st]
      passes_requests [of env lt sts ets out n JNull st] by blast
  note 2 = drain_none_iff [of env lt sts ets out JNull st]
  note 3 = drpc_args_cursor [of sts ets c]
  note 4 = no_cursor_raised [of env lt a s out]
  note 5 = no_cursor_status [of env lt a s code b out]
  note 6 = no_cursor_message [of env lt a s bd out]
  note 7 = no_cursor_access [of env a s bd x m out]
  note 8 = no_cursor_admin [of env a s bd m md out]
  show ?thesis
    using 1 2 3 4 5 6 7 8 by blast
qed

text \<open>
  With a service that returns the cursors \<^verbatim>\<open>c1\<close>, \<^verbatim>\<open>c2\<close> and none, and an output
  that does not fail, the loop posts exactly three requests: without cursor, with
  \<^verbatim>\<open>c1\<close>, with \<^verbatim>\<open>c2\<close>.
\<close>

theorem pagination_follows_cursors_witness:
  "drain sim_env USER_ACCESS 1699999925000 1699999940000 (File ''eaa.log'') JNull three_pages
     \<noteq> None
   \<and> \<not> fst (the (drain sim_env USER_ACCESS 1699999925000 1699999940000 (File ''eaa.log'') JNull
       three_pages))
   \<and> requests (snd (the (drain sim_env USER_ACCESS 1699999925000 1699999940000
       (File ''eaa.log'') JNull three_pages)))
     = [(ACCESSLOG_API, drpc_args 1699999925000 1699999940000 JNull),
        (ACCESSLOG_API, drpc_args 1699999925000 1699999940000 (JStr ''c1'')),
        (ACCESSLOG_API, drpc_args 1699999925000 1699999940000 (JStr ''c2''))]"
proof -
  let ?P = "passes sim_env USER_ACCESS 1699999925000 1699999940000 (File ''eaa.log'')"
  have p0: "fst (?P 0 JNull three_pages) \<and> fst (snd (?P 0 JNull three_pages)) = JStr ''c1''"
    by code_simp
  have p1: "fst (?P (Suc 0) JNull three_pages)
     \<and> fst (snd (?P (Suc 0) JNull three_pages)) = JStr ''c2''"
    by code_simp
  have p2: "fst (?P (Suc (Suc 0)) JNull three_pages)
     \<and> fst (snd (?P (Suc (Suc 0)) JNull three_pages)) = JNull"
    by code_simp
  have h1: "last_pass (?P (Suc (Suc 0)) JNull three_pages)"
    using p2 unfolding last_pass_iff by blast
  have h2: "\<forall>k<Suc (Suc 0). \<not> last_pass (?P k JNull three_pages)"
  proof (intro allI impI)
    fix k :: nat
    assume "k < Suc (Suc 0)"
    then have "k = 0 \<or> k = Suc 0"
      by auto
    then show "\<not> last_pass (?P k JNull three_pages)"
      using p0 p1 unfolding last_pass_iff by (auto simp del: passes.simps)
  qed
  have u: "[0..<Suc (Suc (Suc 0))] = [0, Suc 0, Suc (Suc 0)]"
    by (simp add: upt_rec)
  have r0: "requests three_pages = []"
    by (simp add: three_pages_def sim_state_def init_def)
  have url: "get_api_url USER_ACCESS = ACCESSLOG_API"
    by (simp add: get_api_url_def)
  have "drain sim_env USER_ACCESS 1699999925000 1699999940000 (File ''eaa.log'') JNull three_pages
           = Some (\<not> fst (?P (Suc (Suc 0)) JNull three_pages),
                   snd (snd (?P (Suc (Suc 0)) JNull three_pages)))
         \<and> requests (snd (snd (?P (Suc (Suc 0)) JNull three_pages)))
           = requests three_pages @ map (\<lambda>k. (get_api_url USER_ACCESS,
               drpc_args 1699999925000 1699999940000
               (if k = 0 then JNull
                else fst (snd (?P (k - 1) JNull three_pages))))) [0..<Suc (Suc (Suc 0))]"
    using pagination_follows_cursors [of sim_env USER_ACCESS 1699999925000 1699999940000 "File ''eaa.log''"
        "Suc (Suc 0)" three_pages] h1 h2 by blast
  then show ?thesis
    using p0 p1 p2 by (simp add: u r0 url del: upt_Suc passes.simps)
qed


subsection \<open>The calls on the output\<close>






lemma tell_extends: "extends env out st (snd (tell env out st)) [Tell] 0 []"
  by (cases out) (simp_all add: extends_def tell_def)

lemma close_extends: "extends env out st (snd (close env st)) [Close] 0 []"
  by (cases out) (simp_all add: extends_def close_def)



lemma extends_world_simp [simp]:
  "extends env out st (st1\<lparr>world := w\<rparr>) cs k ps = extends env out st st1 cs k ps"
  by (cases out) (simp_all add: extends_def)












lemma flushed_Cons: "flushed (ls # pages) = map Write ls @ [Flush] @ flushed pages"
  by (simp add: flushed_def)



lemma written_flushed_Tell [simp]: "written env n [Tell] = []"
  by simp




lemma summary_ok_calls [simp]:
  "summary_ok env out sp (st\<lparr>calls := cs\<rparr>) ps = summary_ok env out sp st ps"
  by (cases out) (simp_all add: summary_ok_def)

lemma summary_ok_Nil [simp]: "summary_ok env out sp st []"
  by (simp add: summary_ok_def)









subsection \<open>The byte count of the summary\<close>






subsection \<open>The stop event\<close>

lemma tell_requests [simp]: "requests (snd (tell env out st)) = requests st"
  by (simp add: tell_def)

lemma print_summary_requests [simp]:
  "requests (print_summary env out sp sts ets st) = requests st"
  by (cases "tell env out st") (auto simp: print_summary_def tell_def Let_def split: option.splits if_splits)

lemma poll_requests:
  assumes "poll env cfg lt out sp st = Some y"
  shows "\<exists>rq. requests y = requests st @
     (get_api_url lt, drpc_args (snd (date_boundaries cfg (clock env (world st))))
        (fst (date_boundaries cfg (clock env (world st)))) JNull) # rq"
proof (rule poll.raw_induct [where P = "\<lambda>env cfg lt out sp st y.
      \<exists>rq. requests y = requests st @
     (get_api_url lt, drpc_args (snd (date_boundaries cfg (clock env (world st))))
        (fst (date_boundaries cfg (clock env (world st)))) JNull) # rq", OF _ assms])
  fix f :: "'a env \<Rightarrow> config \<Rightarrow> EventType \<Rightarrow> out \<Rightarrow> nat \<Rightarrow> 'a state \<Rightarrow> 'a state option"
    and env cfg lt out sp st y
  assume IH: "\<And>env cfg lt out sp st y. f env cfg lt out sp st = Some y \<Longrightarrow>
      \<exists>rq. requests y = requests st @
     (get_api_url lt, drpc_args (snd (date_boundaries cfg (clock env (world st))))
        (fst (date_boundaries cfg (clock env (world st)))) JNull) # rq"
    and body: "(case date_boundaries cfg (clock env (world st)) of
        (ets, sts) \<Rightarrow>
          Option.bind (drain env lt sts ets out JNull st)
            (\<lambda>r. case r of
               (raised, st1) \<Rightarrow>
                 if raised then Some st1
                 else if \<not> config_tail cfg then
                   Some (if \<not> config_batch cfg
                         then print_summary env out sp sts ets st1 else st1)
                 else
                   (let elapsed = clock env (world st1) - clock env (world st);
                        st2 = st1\<lparr>world :=
                                wait env (real_of_int PULL_INTERVAL_SEC - elapsed) (world st1)\<rparr>
                    in if is_set env (world st2) then Some st2
                       else f env cfg lt out sp st2))) = Some y"
  obtain ets sts where db: "date_boundaries cfg (clock env (world st)) = (ets, sts)"
    by (cases "date_boundaries cfg (clock env (world st))")
  obtain raised st1 where d: "drain env lt sts ets out JNull st = Some (raised, st1)"
    using body db by (cases "drain env lt sts ets out JNull st") auto
  obtain rq where r1: "requests st1 = requests st @ (get_api_url lt, drpc_args sts ets JNull) # rq"
    using drain_requests [OF d] by auto
  let ?st2 = "st1\<lparr>world := wait env (real_of_int PULL_INTERVAL_SEC
                 - (clock env (world st1) - clock env (world st))) (world st1)\<rparr>"
  show "\<exists>rq. requests y = requests st @
     (get_api_url lt, drpc_args (snd (date_boundaries cfg (clock env (world st))))
        (fst (date_boundaries cfg (clock env (world st)))) JNull) # rq"
  proof (cases "\<not> raised \<and> config_tail cfg \<and> \<not> is_set env (world ?st2)")
    case True
    then have "f env cfg lt out sp ?st2 = Some y"
      using body db d by (simp add: Let_def)
    then obtain rq' where "requests y = requests ?st2 @
       (get_api_url lt, drpc_args (snd (date_boundaries cfg (clock env (world ?st2))))
          (fst (date_boundaries cfg (clock env (world ?st2)))) JNull) # rq'"
      using IH by blast
    then show ?thesis
      using r1 db by simp
  next
    case False
    then have "requests y = requests st1"
      using body db d by (auto simp: Let_def split: if_splits)
    then show ?thesis
      using r1 db by simp
  qed
qed

text \<open>
  C6.  In tail mode, after a window whose pagination ended normally, the loop waits on
  the stop event and then tests it.  When the event is set at that test, the loop is left
  with the state as it was before the wait: no request is posted and no call is made on the
  output.  That is so in particular when the event was set before the wait began, as a
  wait on an event that is set returns with the event still set.  When the event is not
  set at the test, the next window begins, and its first request is posted.
\<close>

theorem stop_flag_ends_tail_loop:
  assumes "config_tail cfg"
    and "date_boundaries cfg (clock env (world st)) = (ets, sts)"
    and "drain env lt sts ets out JNull st = Some (False, st1)"
    and "w' = wait env (real_of_int PULL_INTERVAL_SEC - (clock env (world st1) - clock env (world st)))
                (world st1)"
  shows "(is_set env w' \<longrightarrow> poll env cfg lt out sp st = Some (st1\<lparr>world := w'\<rparr>))
    \<and> (is_set env (world st1) \<and> (\<forall>t w. is_set env w \<longrightarrow> is_set env (wait env t w))
        \<longrightarrow> poll env cfg lt out sp st = Some (st1\<lparr>world := w'\<rparr>))
    \<and> requests (st1\<lparr>world := w'\<rparr>) = requests st1
    \<and> calls (st1\<lparr>world := w'\<rparr>) = calls st1
    \<and> (\<not> is_set env w'
        \<longrightarrow> poll env cfg lt out sp st = poll env cfg lt out sp (st1\<lparr>world := w'\<rparr>)
          \<and> (\<forall>y. poll env cfg lt out sp st = Some y
                \<longrightarrow> (\<exists>rq. requests y = requests st1 @
                      (get_api_url lt, drpc_args (snd (date_boundaries cfg (clock env w')))
                         (fst (date_boundaries cfg (clock env w'))) JNull) # rq)))"
proof -
  have p: "poll env cfg lt out sp st
     = (if is_set env w' then Some (st1\<lparr>world := w'\<rparr>)
        else poll env cfg lt out sp (st1\<lparr>world := w'\<rparr>))"
    by (subst poll.simps) (simp add: assms Let_def)
  have a: "is_set env w' \<longrightarrow> poll env cfg lt out sp st = Some (st1\<lparr>world := w'\<rparr>)"
    using p by simp
  have b: "is_set env (world st1) \<and> (\<forall>t w. is_set env w \<longrightarrow> is_set env (wait env t w))
        \<longrightarrow> poll env cfg lt out sp st = Some (st1\<lparr>world := w'\<rparr>)"
    using a assms(4) by blast
  have c: "\<not> is_set env w'
        \<longrightarrow> poll env cfg lt out sp st = poll env cfg lt out sp (st1\<lparr>world := w'\<rparr>)
          \<and> (\<forall>y. poll env cfg lt out sp st = Some y
                \<longrightarrow> (\<exists>rq. requests y = requests st1 @
                      (get_api_url lt, drpc_args (snd (date_boundaries cfg (clock env w')))
                         (fst (date_boundaries cfg (clock env w'))) JNull) # rq))"
  proof (intro impI conjI allI)
    assume n: "\<not> is_set env w'"
    show e: "poll env cfg lt out sp st = poll env cfg lt out sp (st1\<lparr>world := w'\<rparr>)"
      using p n by simp
    fix y
    assume "poll env cfg lt out sp st = Some y"
    then have "poll env cfg lt out sp (st1\<lparr>world := w'\<rparr>) = Some y"
      using e by simp
    then show "\<exists>rq. requests y = requests st1 @
                      (get_api_url lt, drpc_args (snd (date_boundaries cfg (clock env w')))
                         (fst (date_boundaries cfg (clock env w'))) JNull) # rq"
      using poll_requests [of env cfg lt out sp "st1\<lparr>world := w'\<rparr>" y] by simp
  qed
  show ?thesis
    using a b c by simp
qed

text \<open>
  The stop event is set 5 seconds into the run, during the wait that follows the only
  page: the loop ends at that instant, with the one request it had posted.
\<close>

theorem stop_flag_ends_tail_loop_witness:
  "poll sim_env tail_config USER_ACCESS (File ''eaa.log'') 0
       (stopped_at 1700000005 [access_reply JNull]) \<noteq> None
   \<and> length (requests (the (poll sim_env tail_config USER_ACCESS (File ''eaa.log'') 0
       (stopped_at 1700000005 [access_reply JNull])))) = 1
   \<and> sim_time (world (the (poll sim_env tail_config USER_ACCESS (File ''eaa.log'') 0
       (stopped_at 1700000005 [access_reply JNull])))) = 1700000005"
proof -
  let ?st = "stopped_at 1700000005 [access_reply JNull]"
  let ?d = "drain sim_env USER_ACCESS 1699999925000 1699999940000 (File ''eaa.log'') JNull ?st"
  define st1 where "st1 = snd (the ?d)"
  define w' where "w' = wait sim_env (real_of_int PULL_INTERVAL_SEC
      - (clock sim_env (world st1) - clock sim_env (world ?st))) (world st1)"
  have h1: "config_tail tail_config"
    by (simp add: tail_config_def)
  have h2: "date_boundaries tail_config (clock sim_env (world ?st)) = (1699999940000, 1699999925000)"
    by (simp add: date_boundaries_def Let_def tail_config_def sim_env_def stopped_at_def init_def
        sim_world_def COLLECTION_DELAY_MINUTES_def PULL_INTERVAL_SEC_def)
  have "?d \<noteq> None \<and> \<not> fst (the ?d)"
    by code_simp
  then have h3: "?d = Some (False, st1)"
    unfolding st1_def by (cases ?d) auto
  have w1: "world st1 = \<lparr>replies = [], sim_time = 1700000001, signal_at = Some 1700000005\<rparr>"
    unfolding st1_def by code_simp
  have w: "w' = \<lparr>replies = [], sim_time = 1700000005, signal_at = Some 1700000005\<rparr>"
    by (simp add: w'_def w1 sim_env_def sim_wait_def sim_is_set_def PULL_INTERVAL_SEC_def
        stopped_at_def init_def sim_world_def)
  have s: "is_set sim_env w'"
    by (simp add: w sim_env_def sim_is_set_def)
  have r: "length (requests st1) = 1"
    unfolding st1_def by code_simp
  have "poll sim_env tail_config USER_ACCESS (File ''eaa.log'') 0 ?st = Some (st1\<lparr>world := w'\<rparr>)"
    using stop_flag_ends_tail_loop [OF h1 h2 h3 w'_def] s by blast
  then show ?thesis
    using r by (simp add: w)
qed

end
